theory Spec2Isabelle
  imports Main
begin

section \<open>The zones service of the NS1 REST client (rest/zone.go)\<close>

text \<open>
  The file embeds the five operations of \<^verbatim>\<open>ZonesService\<close> (List, Get, Create, Update,
  Delete) and the two pagination helpers (nextZones, nextRecords). The HTTP client
  the service delegates to is a collaborator: it appears as a record of functions,
  and every theorem holds for every such record.
\<close>

subsection \<open>Data\<close>

text \<open>
  A Go \<^verbatim>\<open>error\<close> value. \<open>Error m\<close> is a \<^verbatim>\<open>*Error\<close>, the structured server error
  with its \<^verbatim>\<open>Message\<close>; \<open>Opaque\<close> is an error of any other dynamic type (transport,
  decoding, request construction). \<open>ErrZoneExists\<close> and \<open>ErrZoneMissing\<close> are the two
  package-level values built by \<^verbatim>\<open>errors.New\<close>: each is one allocated value, equal
  only to itself, so each is a constructor of its own.
\<close>

datatype go_error =
    Error (Message: string)
  | Opaque string
  | ErrZoneExists
  | ErrZoneMissing

text \<open>
  \<^verbatim>\<open>*http.Response\<close>: the service reads one thing of it, \<^verbatim>\<open>resp.Header.Get("Link")\<close>,
  which is the field \<open>Link\<close> (the empty string when the header is absent).
\<close>

record http_response =
  StatusCode :: int
  Link :: string

text \<open>
  \<^verbatim>\<open>dns.Zone\<close>. The service reads the name \<^verbatim>\<open>z.Zone\<close> and appends to \<^verbatim>\<open>z.Records\<close>;
  every other field of the struct lives in the extension part of the record, and the
  element type of \<^verbatim>\<open>Records\<close> is a type parameter.
\<close>

record 'r zone =
  Zone :: string
  Records :: "'r list"

text \<open>
  The state the calls run in: the state of the network and the server (\<open>world\<close>,
  of any type), and the requests handed to the executor \<^verbatim>\<open>Do\<close> so far, in order
  (\<open>sent\<close>), which makes "a network call was made" observable.
\<close>

record ('w, 'q) net =
  world :: 'w
  sent :: "'q list"

text \<open>
  The collaborators of the service.
  \<^item> \<open>NewRequest method path body\<close> is \<^verbatim>\<open>s.client.NewRequest\<close>: a request or a
    construction error.
  \<^item> \<^verbatim>\<open>s.client.Do(req, v)\<close> decodes the response body into \<^verbatim>\<open>v\<close> and returns
    \<^verbatim>\<open>(*http.Response, error)\<close>, each of which may be nil. The service calls it at three
    destination types, hence three fields: \<open>Do_zones\<close> (\<^verbatim>\<open>v\<close> a \<^verbatim>\<open>*[]*dns.Zone\<close>),
    \<open>Do_zone\<close> (\<^verbatim>\<open>v\<close> a \<^verbatim>\<open>*dns.Zone\<close>) and \<open>Do_nil\<close> (\<^verbatim>\<open>v\<close> nil). Each takes the state of
    the world, the request and the value of the destination before the call, and
    returns the value of the destination after the call, the response, the error, and
    the new state of the world.
  \<^item> \<open>FollowPagination\<close> is \<^verbatim>\<open>s.client.FollowPagination\<close>.
  \<^item> \<open>ParseLink_Next h\<close> is \<^verbatim>\<open>ParseLink(h).Next()\<close>, a function of the package that is
    not in this file.
  \<^item> \<open>zero_Zone\<close> is the zero value of \<^verbatim>\<open>dns.Zone\<close> (\<^verbatim>\<open>var z dns.Zone\<close>), whose
    declaration is not in this file.
\<close>

record ('w, 'q, 'r, 'm) client =
  NewRequest :: "string \<Rightarrow> string \<Rightarrow> ('r, 'm) zone_scheme option \<Rightarrow> go_error + 'q"
  Do_zones :: "'w \<Rightarrow> 'q \<Rightarrow> ('r, 'm) zone_scheme list \<Rightarrow>
    (('r, 'm) zone_scheme list \<times> http_response option \<times> go_error option) \<times> 'w"
  Do_zone :: "'w \<Rightarrow> 'q \<Rightarrow> ('r, 'm) zone_scheme \<Rightarrow>
    (('r, 'm) zone_scheme \<times> http_response option \<times> go_error option) \<times> 'w"
  Do_nil :: "'w \<Rightarrow> 'q \<Rightarrow> (http_response option \<times> go_error option) \<times> 'w"
  FollowPagination :: bool
  ParseLink_Next :: "string \<Rightarrow> string"
  zero_Zone :: "('r, 'm) zone_scheme"

text \<open>
  What a call of List or Get does when it comes back: it returns its values, or it
  panics (a nil \<^verbatim>\<open>*http.Response\<close> is dereferenced by \<^verbatim>\<open>resp.Header\<close>). A call that
  never comes back (a server whose every page names a next page) is the value \<open>None\<close>
  of the option type around it.
\<close>

datatype 'a outcome = Panic | Return 'a

subsection \<open>The executor, with the trace of requests\<close>

definition exec_zones ::
  "('w, 'q, 'r, 'm) client \<Rightarrow> ('w, 'q) net \<Rightarrow> 'q \<Rightarrow> ('r, 'm) zone_scheme list \<Rightarrow>
   (('r, 'm) zone_scheme list \<times> http_response option \<times> go_error option) \<times> ('w, 'q) net" where
  "exec_zones c st req v =
     (case Do_zones c (world st) req v of
        (ret, w') \<Rightarrow> (ret, \<lparr>world = w', sent = sent st @ [req]\<rparr>))"

definition exec_zone ::
  "('w, 'q, 'r, 'm) client \<Rightarrow> ('w, 'q) net \<Rightarrow> 'q \<Rightarrow> ('r, 'm) zone_scheme \<Rightarrow>
   (('r, 'm) zone_scheme \<times> http_response option \<times> go_error option) \<times> ('w, 'q) net" where
  "exec_zone c st req v =
     (case Do_zone c (world st) req v of
        (ret, w') \<Rightarrow> (ret, \<lparr>world = w', sent = sent st @ [req]\<rparr>))"

definition exec_nil ::
  "('w, 'q, 'r, 'm) client \<Rightarrow> ('w, 'q) net \<Rightarrow> 'q \<Rightarrow>
   (http_response option \<times> go_error option) \<times> ('w, 'q) net" where
  "exec_nil c st req =
     (case Do_nil c (world st) req of
        (ret, w') \<Rightarrow> (ret, \<lparr>world = w', sent = sent st @ [req]\<rparr>))"

subsection \<open>nextZones and nextRecords\<close>

text \<open>
  \<^verbatim>\<open>nextZones(zl, uri)\<close>: the first component is \<^verbatim>\<open>*zl\<close> after the call. The
  \<^verbatim>\<open>for z := range tmpZl\<close> loop appends the items one at a time, which is the \<open>foldl\<close>.
\<close>

definition nextZones ::
  "('w, 'q, 'r, 'm) client \<Rightarrow> ('r, 'm) zone_scheme list \<Rightarrow> string \<Rightarrow> ('w, 'q) net \<Rightarrow>
   (('r, 'm) zone_scheme list \<times> http_response option \<times> go_error option) \<times> ('w, 'q) net" where
  "nextZones c zl uri st =
     (case NewRequest c ''GET'' uri None of
        Inl err \<Rightarrow> ((zl, None, Some err), st)
      | Inr req \<Rightarrow>
          (case exec_zones c st req [] of
             ((tmpZl, resp, Some err), st') \<Rightarrow> ((zl, None, Some err), st')
           | ((tmpZl, resp, None), st') \<Rightarrow>
               ((foldl (\<lambda>acc z. acc @ [z]) zl tmpZl, resp, None), st')))"

text \<open>\<^verbatim>\<open>nextRecords(z, uri)\<close>: the first component is \<^verbatim>\<open>*z\<close> after the call.\<close>

definition nextRecords ::
  "('w, 'q, 'r, 'm) client \<Rightarrow> ('r, 'm) zone_scheme \<Rightarrow> string \<Rightarrow> ('w, 'q) net \<Rightarrow>
   (('r, 'm) zone_scheme \<times> http_response option \<times> go_error option) \<times> ('w, 'q) net" where
  "nextRecords c z uri st =
     (case NewRequest c ''GET'' uri None of
        Inl err \<Rightarrow> ((z, None, Some err), st)
      | Inr req \<Rightarrow>
          (case exec_zone c st req (zero_Zone c) of
             ((tmpZone, resp, Some err), st') \<Rightarrow> ((z, None, Some err), st')
           | ((tmpZone, resp, None), st') \<Rightarrow>
               ((foldl (\<lambda>acc r. acc\<lparr>Records := Records acc @ [r]\<rparr>) z (Records tmpZone),
                 resp, None), st')))"

subsection \<open>List\<close>

text \<open>
  The \<^verbatim>\<open>for nextURI != ""\<close> loop of List. \<open>resp\<close> is the response of the first request,
  which the loop never assigns; \<open>zl\<close> is the accumulated list.
\<close>

partial_function (option) List_loop ::
  "('w, 'q, 'r, 'm) client \<Rightarrow> http_response \<Rightarrow> ('r, 'm) zone_scheme list \<Rightarrow> string \<Rightarrow>
   ('w, 'q) net \<Rightarrow>
   ((('r, 'm) zone_scheme list option \<times> http_response option \<times> go_error option) outcome
    \<times> ('w, 'q) net) option" where
  "List_loop c resp zl nextURI st =
     (if nextURI \<noteq> [] then
        (case nextZones c zl nextURI st of
           ((zl', nextResp, Some err), st') \<Rightarrow> Some (Return (None, Some resp, Some err), st')
         | ((zl', None, None), st') \<Rightarrow> Some (Panic, st')
         | ((zl', Some nr, None), st') \<Rightarrow>
             List_loop c resp zl' (ParseLink_Next c (Link nr)) st')
      else Some (Return (Some zl, Some resp, None), st))"

text \<open>
  \<^verbatim>\<open>List()\<close>. The zone list returned is \<open>None\<close> where the code returns the literal
  \<^verbatim>\<open>nil\<close>.
\<close>

definition List ::
  "('w, 'q, 'r, 'm) client \<Rightarrow> ('w, 'q) net \<Rightarrow>
   ((('r, 'm) zone_scheme list option \<times> http_response option \<times> go_error option) outcome
    \<times> ('w, 'q) net) option" where
  "List c st =
     (case NewRequest c ''GET'' ''zones'' None of
        Inl err \<Rightarrow> Some (Return (None, None, Some err), st)
      | Inr req \<Rightarrow>
          (case exec_zones c st req [] of
             ((zl, resp, Some err), st') \<Rightarrow> Some (Return (None, resp, Some err), st')
           | ((zl, resp, None), st') \<Rightarrow>
               (if FollowPagination c = True then
                  (case resp of
                     None \<Rightarrow> Some (Panic, st')
                   | Some r \<Rightarrow> List_loop c r zl (ParseLink_Next c (Link r)) st')
                else Some (Return (Some zl, resp, None), st'))))"

subsection \<open>Get\<close>

text \<open>
  The \<^verbatim>\<open>for nextURI != ""\<close> loop of Get. \<open>resp\<close> is the response of the first request,
  \<open>z\<close> the zone decoded from it, with the records of the pages fetched so far appended.
\<close>

partial_function (option) Get_loop ::
  "('w, 'q, 'r, 'm) client \<Rightarrow> http_response \<Rightarrow> ('r, 'm) zone_scheme \<Rightarrow> string \<Rightarrow>
   ('w, 'q) net \<Rightarrow>
   ((('r, 'm) zone_scheme option \<times> http_response option \<times> go_error option) outcome
    \<times> ('w, 'q) net) option" where
  "Get_loop c resp z nextURI st =
     (if nextURI \<noteq> [] then
        (case nextRecords c z nextURI st of
           ((z', nextResp, Some err), st') \<Rightarrow> Some (Return (None, Some resp, Some err), st')
         | ((z', None, None), st') \<Rightarrow> Some (Panic, st')
         | ((z', Some nr, None), st') \<Rightarrow>
             Get_loop c resp z' (ParseLink_Next c (Link nr)) st')
      else Some (Return (Some z, Some resp, None), st))"

text \<open>\<^verbatim>\<open>Get(zone)\<close>. The zone returned is \<open>None\<close> where the code returns \<^verbatim>\<open>nil\<close>.\<close>

definition Get ::
  "('w, 'q, 'r, 'm) client \<Rightarrow> string \<Rightarrow> ('w, 'q) net \<Rightarrow>
   ((('r, 'm) zone_scheme option \<times> http_response option \<times> go_error option) outcome
    \<times> ('w, 'q) net) option" where
  "Get c zone st =
     (let path = ''zones/'' @ zone in
      case NewRequest c ''GET'' path None of
        Inl err \<Rightarrow> Some (Return (None, None, Some err), st)
      | Inr req \<Rightarrow>
          (case exec_zone c st req (zero_Zone c) of
             ((z, resp, Some err), st') \<Rightarrow>
               (case err of
                  Error m \<Rightarrow>
                    if m = ''zone not found''
                    then Some (Return (None, resp, Some ErrZoneMissing), st')
                    else Some (Return (None, resp, Some err), st')
                | _ \<Rightarrow> Some (Return (None, resp, Some err), st'))
           | ((z, resp, None), st') \<Rightarrow>
               (if FollowPagination c = True then
                  (case resp of
                     None \<Rightarrow> Some (Panic, st')
                   | Some r \<Rightarrow> Get_loop c r z (ParseLink_Next c (Link r)) st')
                else Some (Return (Some z, resp, None), st'))))"

subsection \<open>Create, Update, Delete\<close>

text \<open>
  \<^verbatim>\<open>Create(z)\<close> and \<^verbatim>\<open>Update(z)\<close> take a pointer to the caller's zone: \<open>None\<close> is
  the nil pointer, which \<^verbatim>\<open>z.Zone\<close> dereferences. The pointer is handed to \<^verbatim>\<open>Do\<close> as the
  destination: the first component of what is returned is the caller's zone after the
  call, the second the response, the third the error.
\<close>

definition Create ::
  "('w, 'q, 'r, 'm) client \<Rightarrow> ('r, 'm) zone_scheme option \<Rightarrow> ('w, 'q) net \<Rightarrow>
   (('r, 'm) zone_scheme \<times> http_response option \<times> go_error option) outcome \<times> ('w, 'q) net" where
  "Create c zp st =
     (case zp of
        None \<Rightarrow> (Panic, st)
      | Some z \<Rightarrow>
          (let path = ''zones/'' @ Zone z in
           case NewRequest c ''PUT'' path (Some z) of
             Inl err \<Rightarrow> (Return (z, None, Some err), st)
           | Inr req \<Rightarrow>
               (case exec_zone c st req z of
                  ((z', resp, Some err), st') \<Rightarrow>
                    (case err of
                       Error m \<Rightarrow>
                         if m = ''zone already exists''
                         then (Return (z', resp, Some ErrZoneExists), st')
                         else (Return (z', resp, Some err), st')
                     | _ \<Rightarrow> (Return (z', resp, Some err), st'))
                | ((z', resp, None), st') \<Rightarrow> (Return (z', resp, None), st'))))"

definition Update ::
  "('w, 'q, 'r, 'm) client \<Rightarrow> ('r, 'm) zone_scheme option \<Rightarrow> ('w, 'q) net \<Rightarrow>
   (('r, 'm) zone_scheme \<times> http_response option \<times> go_error option) outcome \<times> ('w, 'q) net" where
  "Update c zp st =
     (case zp of
        None \<Rightarrow> (Panic, st)
      | Some z \<Rightarrow>
          (let path = ''zones/'' @ Zone z in
           case NewRequest c ''POST'' path (Some z) of
             Inl err \<Rightarrow> (Return (z, None, Some err), st)
           | Inr req \<Rightarrow>
               (case exec_zone c st req z of
                  ((z', resp, Some err), st') \<Rightarrow>
                    (case err of
                       Error m \<Rightarrow>
                         if m = ''zone not found''
                         then (Return (z', resp, Some ErrZoneMissing), st')
                         else (Return (z', resp, Some err), st')
                     | _ \<Rightarrow> (Return (z', resp, Some err), st'))
                | ((z', resp, None), st') \<Rightarrow> (Return (z', resp, None), st'))))"

text \<open>\<^verbatim>\<open>Delete(zone)\<close>: the response and the error returned.\<close>

definition Delete ::
  "('w, 'q, 'r, 'm) client \<Rightarrow> string \<Rightarrow> ('w, 'q) net \<Rightarrow>
   (http_response option \<times> go_error option) \<times> ('w, 'q) net" where
  "Delete c zone st =
     (let path = ''zones/'' @ zone in
      case NewRequest c ''DELETE'' path None of
        Inl err \<Rightarrow> ((None, Some err), st)
      | Inr req \<Rightarrow>
          (case exec_nil c st req of
             ((resp, Some err), st') \<Rightarrow>
               (case err of
                  Error m \<Rightarrow>
                    if m = ''zone not found''
                    then ((resp, Some ErrZoneMissing), st')
                    else ((resp, Some err), st')
                | _ \<Rightarrow> ((resp, Some err), st'))
           | ((resp, None), st') \<Rightarrow> ((resp, None), st')))"

subsection \<open>Pagination walks, as the transport sees them\<close>

text \<open>
  \<open>zone_pages c st uri ps st'\<close>: starting in state \<open>st\<close> with the continuation
  pointer \<open>uri\<close>, the follow-up pages \<open>ps\<close> (each the zone list decoded and the response
  it came with) are fetched one after the other, every fetch succeeds, the pointer of
  the last one is empty, and the state is then \<open>st'\<close>.
\<close>

fun zone_pages ::
  "('w, 'q, 'r, 'm) client \<Rightarrow> ('w, 'q) net \<Rightarrow> string \<Rightarrow>
   (('r, 'm) zone_scheme list \<times> http_response) list \<Rightarrow> ('w, 'q) net \<Rightarrow> bool" where
  "zone_pages c st uri [] st' = (uri = [] \<and> st' = st)"
| "zone_pages c st uri ((zs, r) # ps) st' =
     (uri \<noteq> [] \<and>
      (case NewRequest c ''GET'' uri None of
         Inl err \<Rightarrow> False
       | Inr req \<Rightarrow>
           (case exec_zones c st req [] of
              ((zs', Some r', None), st1) \<Rightarrow>
                zs' = zs \<and> r' = r \<and> zone_pages c st1 (ParseLink_Next c (Link r)) ps st'
            | _ \<Rightarrow> False)))"

text \<open>
  \<open>zone_pages_fail c st uri ps e st'\<close>: the follow-up pages \<open>ps\<close> are fetched, every
  one with success, and the fetch after them fails with the error \<open>e\<close>, in request
  construction or in \<^verbatim>\<open>Do\<close>.
\<close>

fun zone_pages_fail ::
  "('w, 'q, 'r, 'm) client \<Rightarrow> ('w, 'q) net \<Rightarrow> string \<Rightarrow>
   (('r, 'm) zone_scheme list \<times> http_response) list \<Rightarrow> go_error \<Rightarrow> ('w, 'q) net \<Rightarrow> bool" where
  "zone_pages_fail c st uri [] e st' =
     (uri \<noteq> [] \<and>
      (case NewRequest c ''GET'' uri None of
         Inl err \<Rightarrow> err = e \<and> st' = st
       | Inr req \<Rightarrow>
           (case exec_zones c st req [] of
              ((zs', r', Some err), st1) \<Rightarrow> err = e \<and> st' = st1
            | _ \<Rightarrow> False)))"
| "zone_pages_fail c st uri ((zs, r) # ps) e st' =
     (uri \<noteq> [] \<and>
      (case NewRequest c ''GET'' uri None of
         Inl err \<Rightarrow> False
       | Inr req \<Rightarrow>
           (case exec_zones c st req [] of
              ((zs', Some r', None), st1) \<Rightarrow>
                zs' = zs \<and> r' = r \<and>
                zone_pages_fail c st1 (ParseLink_Next c (Link r)) ps e st'
            | _ \<Rightarrow> False)))"

text \<open>The same two for the walk of Get, whose pages are single zones.\<close>

fun record_pages ::
  "('w, 'q, 'r, 'm) client \<Rightarrow> ('w, 'q) net \<Rightarrow> string \<Rightarrow>
   (('r, 'm) zone_scheme \<times> http_response) list \<Rightarrow> ('w, 'q) net \<Rightarrow> bool" where
  "record_pages c st uri [] st' = (uri = [] \<and> st' = st)"
| "record_pages c st uri ((z, r) # ps) st' =
     (uri \<noteq> [] \<and>
      (case NewRequest c ''GET'' uri None of
         Inl err \<Rightarrow> False
       | Inr req \<Rightarrow>
           (case exec_zone c st req (zero_Zone c) of
              ((z', Some r', None), st1) \<Rightarrow>
                z' = z \<and> r' = r \<and> record_pages c st1 (ParseLink_Next c (Link r)) ps st'
            | _ \<Rightarrow> False)))"

fun record_pages_fail ::
  "('w, 'q, 'r, 'm) client \<Rightarrow> ('w, 'q) net \<Rightarrow> string \<Rightarrow>
   (('r, 'm) zone_scheme \<times> http_response) list \<Rightarrow> go_error \<Rightarrow> ('w, 'q) net \<Rightarrow> bool" where
  "record_pages_fail c st uri [] e st' =
     (uri \<noteq> [] \<and>
      (case NewRequest c ''GET'' uri None of
         Inl err \<Rightarrow> err = e \<and> st' = st
       | Inr req \<Rightarrow>
           (case exec_zone c st req (zero_Zone c) of
              ((z', r', Some err), st1) \<Rightarrow> err = e \<and> st' = st1
            | _ \<Rightarrow> False)))"
| "record_pages_fail c st uri ((z, r) # ps) e st' =
     (uri \<noteq> [] \<and>
      (case NewRequest c ''GET'' uri None of
         Inl err \<Rightarrow> False
       | Inr req \<Rightarrow>
           (case exec_zone c st req (zero_Zone c) of
              ((z', Some r', None), st1) \<Rightarrow>
                z' = z \<and> r' = r \<and>
                record_pages_fail c st1 (ParseLink_Next c (Link r)) ps e st'
            | _ \<Rightarrow> False)))"

subsection \<open>Clients that never hand out the two package-level error values\<close>

definition is_sentinel :: "go_error \<Rightarrow> bool" where
  "is_sentinel e = (e = ErrZoneExists \<or> e = ErrZoneMissing)"

text \<open>
  \<open>sentinel_free c\<close>: no error that \<^verbatim>\<open>NewRequest\<close> or \<^verbatim>\<open>Do\<close> returns is \<^verbatim>\<open>ErrZoneExists\<close>
  or \<^verbatim>\<open>ErrZoneMissing\<close> itself; the two values then only come from the service.
\<close>

definition sentinel_free :: "('w, 'q, 'r, 'm) client \<Rightarrow> bool" where
  "sentinel_free c =
     ((\<forall>method path body e. NewRequest c method path body = Inl e \<longrightarrow> \<not> is_sentinel e) \<and>
      (\<forall>w req v e. snd (snd (fst (Do_zones c w req v))) = Some e \<longrightarrow> \<not> is_sentinel e) \<and>
      (\<forall>w req v e. snd (snd (fst (Do_zone c w req v))) = Some e \<longrightarrow> \<not> is_sentinel e) \<and>
      (\<forall>w req e. snd (fst (Do_nil c w req)) = Some e \<longrightarrow> \<not> is_sentinel e))"

subsection \<open>Concrete clients\<close>

definition zone_named :: "string \<Rightarrow> string list \<Rightarrow> string zone" where
  "zone_named n rs = \<lparr>Zone = n, Records = rs\<rparr>"

definition response :: "int \<Rightarrow> string \<Rightarrow> http_response" where
  "response code l = \<lparr>StatusCode = code, Link = l\<rparr>"

text \<open>
  A server with three pages of zones (a, b; c; d) and two pages of records for the
  zone example.com. The world is the number of requests the network still carries:
  at 0 every \<^verbatim>\<open>Do\<close> fails with a transport error and no response. A request is its
  method and its path; a path with a space in it cannot be built. The \<^verbatim>\<open>Link\<close> header
  is the next address itself.
\<close>

definition demo :: "bool \<Rightarrow> (nat, string, string, unit) client" where
  "demo follow =
     \<lparr>NewRequest = (\<lambda>method path body.
        if CHR '' '' \<in> set path then Inl (Opaque ''invalid URL'')
        else Inr (method @ '' '' @ path)),
      Do_zones = (\<lambda>w req v.
        if w = 0 then ((v, None, Some (Opaque ''connection refused'')), 0)
        else if req = ''GET zones'' then
          (([zone_named ''a'' [], zone_named ''b'' []], Some (response 200 ''zones?page=2''), None),
           w - 1)
        else if req = ''GET zones?page=2'' then
          (([zone_named ''c'' []], Some (response 200 ''zones?page=3''), None), w - 1)
        else if req = ''GET zones?page=3'' then
          (([zone_named ''d'' []], Some (response 200 []), None), w - 1)
        else ((v, Some (response 404 []), Some (Error ''not found'')), w - 1)),
      Do_zone = (\<lambda>w req v.
        if w = 0 then ((v, None, Some (Opaque ''connection refused'')), 0)
        else if req = ''GET zones/example.com'' then
          ((zone_named ''example.com'' [''www'', ''mail''],
            Some (response 200 ''zones/example.com?page=2''), None), w - 1)
        else if req = ''GET zones/example.com?page=2'' then
          ((zone_named ''EXAMPLE.COM'' [''ftp''],
            Some (response 200 ''zones/example.com?page=3''), None), w - 1)
        else if req = ''GET zones/example.com?page=3'' then
          ((zone_named ''example.com'' [''ns1''], Some (response 200 []), None), w - 1)
        else if req = ''PUT zones/example.com'' then
          ((v, Some (response 400 []), Some (Error ''zone already exists'')), w - 1)
        else if req = ''POST zones/example.com'' then
          ((v, Some (response 200 []), None), w - 1)
        else ((v, Some (response 404 []), Some (Error ''zone not found'')), w - 1)),
      Do_nil = (\<lambda>w req.
        if w = 0 then ((None, Some (Opaque ''connection refused'')), 0)
        else if req = ''DELETE zones/example.com'' then ((Some (response 200 []), None), w - 1)
        else ((Some (response 404 []), Some (Error ''zone not found'')), w - 1)),
      FollowPagination = follow,
      ParseLink_Next = (\<lambda>h. h),
      zero_Zone = zone_named [] []\<rparr>"

text \<open>
  A client whose every \<^verbatim>\<open>Do\<close> fails with the error \<open>e\<close> and a response of status 500,
  and one whose \<^verbatim>\<open>NewRequest\<close> fails with \<open>e\<close>.
\<close>

definition failing :: "go_error \<Rightarrow> (unit, string \<times> string, string, unit) client" where
  "failing e =
     \<lparr>NewRequest = (\<lambda>method path body. Inr (method, path)),
      Do_zones = (\<lambda>w req v. ((v, Some (response 500 []), Some e), w)),
      Do_zone = (\<lambda>w req v. ((v, Some (response 500 []), Some e), w)),
      Do_nil = (\<lambda>w req. ((Some (response 500 []), Some e), w)),
      FollowPagination = True,
      ParseLink_Next = (\<lambda>h. h),
      zero_Zone = zone_named [] []\<rparr>"

definition unbuildable :: "go_error \<Rightarrow> (unit, string \<times> string, string, unit) client" where
  "unbuildable e = (failing e)\<lparr>NewRequest := (\<lambda>method path body. Inl e)\<rparr>"

text \<open>The state before any call: the world \<open>w\<close>, nothing sent yet.\<close>

definition start :: "'w \<Rightarrow> ('w, 'q) net" where
  "start w = \<lparr>world = w, sent = []\<rparr>"

section \<open>Lemmas about the two helpers and the two loops\<close>

lemma foldl_snoc: "foldl (\<lambda>acc z. acc @ [z]) zl xs = zl @ xs"
  by (induction xs arbitrary: zl) simp_all

lemma foldl_Records:
  "foldl (\<lambda>acc r. acc\<lparr>Records := Records acc @ [r]\<rparr>) z rs = z\<lparr>Records := Records z @ rs\<rparr>"
  by (induction rs arbitrary: z) simp_all

lemma nextZones_ok:
  "NewRequest c ''GET'' uri None = Inr req \<Longrightarrow>
   exec_zones c st req [] = ((zs, resp, None), st1) \<Longrightarrow>
   nextZones c zl uri st = ((zl @ zs, resp, None), st1)"
  by (simp add: nextZones_def foldl_snoc)

lemma nextZones_unbuilt:
  "NewRequest c ''GET'' uri None = Inl e \<Longrightarrow> nextZones c zl uri st = ((zl, None, Some e), st)"
  by (simp add: nextZones_def)

lemma nextZones_failed:
  "NewRequest c ''GET'' uri None = Inr req \<Longrightarrow>
   exec_zones c st req [] = ((zs, resp, Some e), st1) \<Longrightarrow>
   nextZones c zl uri st = ((zl, None, Some e), st1)"
  by (simp add: nextZones_def)

lemma nextRecords_ok:
  "NewRequest c ''GET'' uri None = Inr req \<Longrightarrow>
   exec_zone c st req (zero_Zone c) = ((z', resp, None), st1) \<Longrightarrow>
   nextRecords c z uri st = ((z\<lparr>Records := Records z @ Records z'\<rparr>, resp, None), st1)"
  by (simp add: nextRecords_def foldl_Records)

lemma nextRecords_unbuilt:
  "NewRequest c ''GET'' uri None = Inl e \<Longrightarrow> nextRecords c z uri st = ((z, None, Some e), st)"
  by (simp add: nextRecords_def)

lemma nextRecords_failed:
  "NewRequest c ''GET'' uri None = Inr req \<Longrightarrow>
   exec_zone c st req (zero_Zone c) = ((z', resp, Some e), st1) \<Longrightarrow>
   nextRecords c z uri st = ((z, None, Some e), st1)"
  by (simp add: nextRecords_def)

text \<open>A page of a walk, taken apart.\<close>

lemma zone_pages_ConsE:
  assumes "zone_pages c st uri ((zs, r) # ps) st'"
  obtains req st1 where "uri \<noteq> []" "NewRequest c ''GET'' uri None = Inr req"
    "exec_zones c st req [] = ((zs, Some r, None), st1)"
    "zone_pages c st1 (ParseLink_Next c (Link r)) ps st'"
  using assms by (auto split: sum.splits prod.splits option.splits)

lemma zone_pages_fail_ConsE:
  assumes "zone_pages_fail c st uri ((zs, r) # ps) e st'"
  obtains req st1 where "uri \<noteq> []" "NewRequest c ''GET'' uri None = Inr req"
    "exec_zones c st req [] = ((zs, Some r, None), st1)"
    "zone_pages_fail c st1 (ParseLink_Next c (Link r)) ps e st'"
  using assms by (auto split: sum.splits prod.splits option.splits)

lemma record_pages_ConsE:
  assumes "record_pages c st uri ((z, r) # ps) st'"
  obtains req st1 where "uri \<noteq> []" "NewRequest c ''GET'' uri None = Inr req"
    "exec_zone c st req (zero_Zone c) = ((z, Some r, None), st1)"
    "record_pages c st1 (ParseLink_Next c (Link r)) ps st'"
  using assms by (auto split: sum.splits prod.splits option.splits)

lemma record_pages_fail_ConsE:
  assumes "record_pages_fail c st uri ((z, r) # ps) e st'"
  obtains req st1 where "uri \<noteq> []" "NewRequest c ''GET'' uri None = Inr req"
    "exec_zone c st req (zero_Zone c) = ((z, Some r, None), st1)"
    "record_pages_fail c st1 (ParseLink_Next c (Link r)) ps e st'"
  using assms by (auto split: sum.splits prod.splits option.splits)

text \<open>The loop of List on a walk whose every fetch succeeds.\<close>

lemma List_loop_pages:
  "zone_pages c st uri ps st' \<Longrightarrow>
   List_loop c resp zl uri st =
     Some (Return (Some (zl @ concat (map fst ps)), Some resp, None), st')"
proof (induction ps arbitrary: st uri zl)
  case Nil
  then show ?case by (simp add: List_loop.simps)
next
  case (Cons p ps)
  obtain zs r where p: "p = (zs, r)" by (cases p)
  from Cons.prems obtain req st1 where uri: "uri \<noteq> []"
    and req: "NewRequest c ''GET'' uri None = Inr req"
    and ex: "exec_zones c st req [] = ((zs, Some r, None), st1)"
    and rest: "zone_pages c st1 (ParseLink_Next c (Link r)) ps st'"
    unfolding p by (rule zone_pages_ConsE)
  have "List_loop c resp zl uri st =
        List_loop c resp (zl @ zs) (ParseLink_Next c (Link r)) st1"
    using uri nextZones_ok [OF req ex] by (subst List_loop.simps) simp
  also have "\<dots> = Some (Return (Some ((zl @ zs) @ concat (map fst ps)), Some resp, None), st')"
    by (rule Cons.IH [OF rest])
  finally show ?case by (simp add: p)
qed

text \<open>The loop of List on a walk that ends in a failed fetch.\<close>

lemma List_loop_pages_fail:
  "zone_pages_fail c st uri ps e st' \<Longrightarrow>
   List_loop c resp zl uri st = Some (Return (None, Some resp, Some e), st')"
proof (induction ps arbitrary: st uri zl)
  case Nil
  then have uri: "uri \<noteq> []" by simp
  show ?case
  proof (cases "NewRequest c ''GET'' uri None")
    case (Inl err)
    with Nil have "err = e" "st' = st" by simp_all
    with uri nextZones_unbuilt [OF Inl] show ?thesis
      by (subst List_loop.simps) simp
  next
    case (Inr req)
    with Nil obtain zs r where ex: "exec_zones c st req [] = ((zs, r, Some e), st')"
      by (auto split: prod.splits option.splits)
    with uri nextZones_failed [OF Inr ex] show ?thesis
      by (subst List_loop.simps) simp
  qed
next
  case (Cons p ps)
  obtain zs r where p: "p = (zs, r)" by (cases p)
  from Cons.prems obtain req st1 where uri: "uri \<noteq> []"
    and req: "NewRequest c ''GET'' uri None = Inr req"
    and ex: "exec_zones c st req [] = ((zs, Some r, None), st1)"
    and rest: "zone_pages_fail c st1 (ParseLink_Next c (Link r)) ps e st'"
    unfolding p by (rule zone_pages_fail_ConsE)
  have "List_loop c resp zl uri st =
        List_loop c resp (zl @ zs) (ParseLink_Next c (Link r)) st1"
    using uri nextZones_ok [OF req ex] by (subst List_loop.simps) simp
  also have "\<dots> = Some (Return (None, Some resp, Some e), st')"
    by (rule Cons.IH [OF rest])
  finally show ?case .
qed

text \<open>The loop of Get, the same way.\<close>

lemma Get_loop_pages:
  "record_pages c st uri ps st' \<Longrightarrow>
   Get_loop c resp z uri st =
     Some (Return (Some (z\<lparr>Records := Records z @ concat (map (\<lambda>p. Records (fst p)) ps)\<rparr>),
                   Some resp, None), st')"
proof (induction ps arbitrary: st uri z)
  case Nil
  then show ?case by (simp add: Get_loop.simps)
next
  case (Cons p ps)
  obtain z' r where p: "p = (z', r)" by (cases p)
  from Cons.prems obtain req st1 where uri: "uri \<noteq> []"
    and req: "NewRequest c ''GET'' uri None = Inr req"
    and ex: "exec_zone c st req (zero_Zone c) = ((z', Some r, None), st1)"
    and rest: "record_pages c st1 (ParseLink_Next c (Link r)) ps st'"
    unfolding p by (rule record_pages_ConsE)
  let ?z1 = "z\<lparr>Records := Records z @ Records z'\<rparr>"
  have "Get_loop c resp z uri st = Get_loop c resp ?z1 (ParseLink_Next c (Link r)) st1"
    using uri nextRecords_ok [OF req ex] by (subst Get_loop.simps) simp
  also have "\<dots> = Some (Return (Some (?z1\<lparr>Records := Records ?z1 @ concat (map (\<lambda>p. Records (fst p)) ps)\<rparr>),
                   Some resp, None), st')"
    by (rule Cons.IH [OF rest])
  finally show ?case by (simp add: p)
qed

lemma Get_loop_pages_fail:
  "record_pages_fail c st uri ps e st' \<Longrightarrow>
   Get_loop c resp z uri st = Some (Return (None, Some resp, Some e), st')"
proof (induction ps arbitrary: st uri z)
  case Nil
  then have uri: "uri \<noteq> []" by simp
  show ?case
  proof (cases "NewRequest c ''GET'' uri None")
    case (Inl err)
    with Nil have "err = e" "st' = st" by simp_all
    with uri nextRecords_unbuilt [OF Inl] show ?thesis
      by (subst Get_loop.simps) simp
  next
    case (Inr req)
    with Nil obtain z' r where ex: "exec_zone c st req (zero_Zone c) = ((z', r, Some e), st')"
      by (auto split: prod.splits option.splits)
    with uri nextRecords_failed [OF Inr ex] show ?thesis
      by (subst Get_loop.simps) simp
  qed
next
  case (Cons p ps)
  obtain z' r where p: "p = (z', r)" by (cases p)
  from Cons.prems obtain req st1 where uri: "uri \<noteq> []"
    and req: "NewRequest c ''GET'' uri None = Inr req"
    and ex: "exec_zone c st req (zero_Zone c) = ((z', Some r, None), st1)"
    and rest: "record_pages_fail c st1 (ParseLink_Next c (Link r)) ps e st'"
    unfolding p by (rule record_pages_fail_ConsE)
  have "Get_loop c resp z uri st =
        Get_loop c resp (z\<lparr>Records := Records z @ Records z'\<rparr>) (ParseLink_Next c (Link r)) st1"
    using uri nextRecords_ok [OF req ex] by (subst Get_loop.simps) simp
  also have "\<dots> = Some (Return (None, Some resp, Some e), st')"
    by (rule Cons.IH [OF rest])
  finally show ?case .
qed

text \<open>List and Get on a whole walk: the first request, then the follow-up pages.\<close>

lemma List_pages:
  assumes "FollowPagination c"
    and "NewRequest c ''GET'' ''zones'' None = Inr req"
    and "exec_zones c st req [] = ((zs, Some r, None), st1)"
    and "zone_pages c st1 (ParseLink_Next c (Link r)) ps st'"
  shows "List c st = Some (Return (Some (zs @ concat (map fst ps)), Some r, None), st')"
  using assms(1-3) List_loop_pages [OF assms(4)] by (simp add: List_def)

lemma List_pages_fail:
  assumes "FollowPagination c"
    and "NewRequest c ''GET'' ''zones'' None = Inr req"
    and "exec_zones c st req [] = ((zs, Some r, None), st1)"
    and "zone_pages_fail c st1 (ParseLink_Next c (Link r)) ps e st'"
  shows "List c st = Some (Return (None, Some r, Some e), st')"
  using assms(1-3) List_loop_pages_fail [OF assms(4)] by (simp add: List_def)

lemma Get_pages:
  assumes "FollowPagination c"
    and "NewRequest c ''GET'' (''zones/'' @ zone) None = Inr req"
    and "exec_zone c st req (zero_Zone c) = ((z, Some r, None), st1)"
    and "record_pages c st1 (ParseLink_Next c (Link r)) ps st'"
  shows "Get c zone st =
    Some (Return (Some (z\<lparr>Records := Records z @ concat (map (\<lambda>p. Records (fst p)) ps)\<rparr>),
                  Some r, None), st')"
  using assms(1-3) Get_loop_pages [OF assms(4)] by (simp add: Get_def)

lemma Get_pages_fail:
  assumes "FollowPagination c"
    and "NewRequest c ''GET'' (''zones/'' @ zone) None = Inr req"
    and "exec_zone c st req (zero_Zone c) = ((z, Some r, None), st1)"
    and "record_pages_fail c st1 (ParseLink_Next c (Link r)) ps e st'"
  shows "Get c zone st = Some (Return (None, Some r, Some e), st')"
  using assms(1-3) Get_loop_pages_fail [OF assms(4)] by (simp add: Get_def)

lemma exec_zone_error_not_sentinel:
  "sentinel_free c \<Longrightarrow> exec_zone c st req v = ((z, resp, Some e), st') \<Longrightarrow> \<not> is_sentinel e"
  unfolding sentinel_free_def exec_zone_def
  by (metis (no_types, lifting) case_prod_beta fst_conv snd_conv)

lemma exec_nil_error_not_sentinel:
  "sentinel_free c \<Longrightarrow> exec_nil c st req = ((resp, Some e), st') \<Longrightarrow> \<not> is_sentinel e"
  unfolding sentinel_free_def exec_nil_def
  by (metis (no_types, lifting) case_prod_beta fst_conv snd_conv)

lemma NewRequest_error_not_sentinel:
  "sentinel_free c \<Longrightarrow> NewRequest c m p b = Inl e \<Longrightarrow> \<not> is_sentinel e"
  unfolding sentinel_free_def by blast

lemma nextRecords_error_not_sentinel:
  assumes "sentinel_free c" and "nextRecords c z uri st = ((z', resp, Some e), st')"
  shows "\<not> is_sentinel e"
proof (cases "NewRequest c ''GET'' uri None")
  case (Inl err)
  with assms(2) have "err = e" by (simp add: nextRecords_def)
  with Inl assms(1) show ?thesis by (auto dest: NewRequest_error_not_sentinel)
next
  case (Inr req)
  obtain tz r eo st1 where ex: "exec_zone c st req (zero_Zone c) = ((tz, r, eo), st1)"
    by (metis prod_cases3 surj_pair)
  with Inr assms(2) have "eo = Some e"
    by (cases eo) (simp_all add: nextRecords_def)
  with ex assms(1) show ?thesis by (auto dest: exec_zone_error_not_sentinel)
qed

lemma Get_loop_error_not_sentinel:
  assumes "Get_loop c resp z uri st = Some y"
  shows "sentinel_free c \<longrightarrow>
    (\<forall>zz rr e st'. y = (Return (zz, rr, Some e), st') \<longrightarrow> \<not> is_sentinel e)"
proof (rule Get_loop.raw_induct [where P = "\<lambda>c resp z uri st y. sentinel_free c \<longrightarrow>
    (\<forall>zz rr e st'. y = (Return (zz, rr, Some e), st') \<longrightarrow> \<not> is_sentinel e)", OF _ assms])
  fix loop c resp z uri st y
  assume IH: "\<And>c resp z uri st y. loop c resp z uri st = Some y \<Longrightarrow>
      sentinel_free c \<longrightarrow>
      (\<forall>zz rr e st'. y = (Return (zz, rr, Some e), st') \<longrightarrow> \<not> is_sentinel e)"
    and body: "(if uri \<noteq> [] then
        (case nextRecords c z uri st of
           ((z', nextResp, Some err), st') \<Rightarrow> Some (Return (None, Some resp, Some err), st')
         | ((z', None, None), st') \<Rightarrow> Some (Panic, st')
         | ((z', Some nr, None), st') \<Rightarrow> loop c resp z' (ParseLink_Next c (Link nr)) st')
      else Some (Return (Some z, Some resp, None), st)) = Some y"
  show "sentinel_free c \<longrightarrow>
    (\<forall>zz rr e st'. y = (Return (zz, rr, Some e), st') \<longrightarrow> \<not> is_sentinel e)"
  proof
    assume sf: "sentinel_free c"
    show "\<forall>zz rr e st'. y = (Return (zz, rr, Some e), st') \<longrightarrow> \<not> is_sentinel e"
    proof (cases "uri = []")
      case True
      with body show ?thesis by auto
    next
      case False
      obtain z' nr eo st1 where nx: "nextRecords c z uri st = ((z', nr, eo), st1)"
        by (metis prod_cases3 surj_pair)
      show ?thesis
      proof (cases eo)
        case (Some err)
        with nx sf have "\<not> is_sentinel err" by (auto dest: nextRecords_error_not_sentinel)
        with False nx Some body show ?thesis by (auto split: option.splits)
      next
        case None
        show ?thesis
        proof (cases nr)
          case None
          with False nx \<open>eo = None\<close> body show ?thesis by auto
        next
          case (Some r)
          with False nx \<open>eo = None\<close> body
          have "loop c resp z' (ParseLink_Next c (Link r)) st1 = Some y" by simp
          from IH [OF this] sf show ?thesis by blast
        qed
      qed
    qed
  qed
qed

section \<open>The claims\<close>

text \<open>
  C1. A List walk with pagination enabled whose pages all arrive: the first request
  yields \<open>zs\<close> with the response \<open>r\<close>, the follow-up pages are \<open>ps\<close>, so the pages are
  \<open>zs # map fst ps\<close>, at least one. List returns, without error, the
  concatenation of the pages in the order they were fetched, each page's items in
  their order; its length is the sum of the lengths of the pages.
\<close>

theorem List_concatenates_pages:
  assumes "FollowPagination c"
    and "NewRequest c ''GET'' ''zones'' None = Inr req"
    and "exec_zones c st req [] = ((zs, Some r, None), st1)"
    and "zone_pages c st1 (ParseLink_Next c (Link r)) ps st'"
  shows "\<exists>zl resp. List c st = Some (Return (Some zl, resp, None), st') \<and>
           zl = concat (zs # map fst ps) \<and>
           length zl = sum_list (map length (zs # map fst ps))"
proof -
  have "List c st = Some (Return (Some (zs @ concat (map fst ps)), Some r, None), st')"
    using assms by (rule List_pages)
  moreover have "length (concat (zs # map fst ps)) = sum_list (map length (zs # map fst ps))"
    by (rule length_concat)
  ultimately show ?thesis by simp
qed

theorem List_concatenates_pages_witness:
  "FollowPagination (demo True) \<and>
   NewRequest (demo True) ''GET'' ''zones'' None = Inr ''GET zones'' \<and>
   exec_zones (demo True) (start 3) ''GET zones'' [] =
     (([zone_named ''a'' [], zone_named ''b'' []], Some (response 200 ''zones?page=2''), None),
      \<lparr>world = 2, sent = [''GET zones'']\<rparr>) \<and>
   zone_pages (demo True) \<lparr>world = 2, sent = [''GET zones'']\<rparr> ''zones?page=2''
     [([zone_named ''c'' []], response 200 ''zones?page=3''),
      ([zone_named ''d'' []], response 200 [])]
     \<lparr>world = 0, sent = [''GET zones'', ''GET zones?page=2'', ''GET zones?page=3'']\<rparr> \<and>
   (\<exists>zl resp. List (demo True) (start 3) =
       Some (Return (Some zl, resp, None),
             \<lparr>world = 0, sent = [''GET zones'', ''GET zones?page=2'', ''GET zones?page=3'']\<rparr>) \<and>
     zl = [zone_named ''a'' [], zone_named ''b'' [], zone_named ''c'' [], zone_named ''d'' []] \<and>
     length zl = 4)"
proof -
  have h1: "FollowPagination (demo True)" by (simp add: demo_def)
  have h2: "NewRequest (demo True) ''GET'' ''zones'' None = Inr ''GET zones''"
    by (simp add: demo_def)
  have h3: "exec_zones (demo True) (start 3) ''GET zones'' [] =
     (([zone_named ''a'' [], zone_named ''b'' []], Some (response 200 ''zones?page=2''), None),
      \<lparr>world = 2, sent = [''GET zones'']\<rparr>)"
    by (simp add: demo_def exec_zones_def start_def)
  have h4: "zone_pages (demo True) \<lparr>world = 2, sent = [''GET zones'']\<rparr>
     (ParseLink_Next (demo True) (Link (response 200 ''zones?page=2'')))
     [([zone_named ''c'' []], response 200 ''zones?page=3''),
      ([zone_named ''d'' []], response 200 [])]
     \<lparr>world = 0, sent = [''GET zones'', ''GET zones?page=2'', ''GET zones?page=3'']\<rparr>"
    by (simp add: demo_def exec_zones_def response_def)
  have h4': "ParseLink_Next (demo True) (Link (response 200 ''zones?page=2'')) = ''zones?page=2''"
    by (simp add: demo_def response_def)
  from List_concatenates_pages [OF h1 h2 h3 h4]
  have c: "\<exists>zl resp. List (demo True) (start 3) =
       Some (Return (Some zl, resp, None),
             \<lparr>world = 0, sent = [''GET zones'', ''GET zones?page=2'', ''GET zones?page=3'']\<rparr>) \<and>
     zl = [zone_named ''a'' [], zone_named ''b'' [], zone_named ''c'' [], zone_named ''d'' []] \<and>
     length zl = 4"
    by simp
  from h1 h2 h3 h4 [unfolded h4'] c show ?thesis by - (intro conjI; assumption)
qed

text \<open>
  C2. A Get walk with pagination enabled whose pages all arrive: the first request
  yields the zone \<open>z\<close> with the response \<open>r\<close>, the follow-up pages are \<open>ps\<close>. Get returns
  \<open>z\<close> with its records replaced by the concatenation of the records of all the pages
  in the order they were fetched: the name and every other field are those of \<open>z\<close>,
  whatever the follow-up pages carry there.
\<close>

theorem Get_concatenates_records:
  assumes "FollowPagination c"
    and "NewRequest c ''GET'' (''zones/'' @ zone) None = Inr req"
    and "exec_zone c st req (zero_Zone c) = ((z, Some r, None), st1)"
    and "record_pages c st1 (ParseLink_Next c (Link r)) ps st'"
  shows "\<exists>z' resp. Get c zone st = Some (Return (Some z', resp, None), st') \<and>
           Records z' = concat (Records z # map (\<lambda>p. Records (fst p)) ps) \<and>
           Zone z' = Zone z \<and> zone.more z' = zone.more z \<and>
           z' = z\<lparr>Records := Records z'\<rparr>"
proof -
  let ?z' = "z\<lparr>Records := Records z @ concat (map (\<lambda>p. Records (fst p)) ps)\<rparr>"
  have "Get c zone st = Some (Return (Some ?z', Some r, None), st')"
    using assms by (rule Get_pages)
  then show ?thesis by simp
qed

theorem Get_concatenates_records_witness:
  "FollowPagination (demo True) \<and>
   NewRequest (demo True) ''GET'' (''zones/'' @ ''example.com'') None =
     Inr ''GET zones/example.com'' \<and>
   exec_zone (demo True) (start 3) ''GET zones/example.com'' (zero_Zone (demo True)) =
     ((zone_named ''example.com'' [''www'', ''mail''],
       Some (response 200 ''zones/example.com?page=2''), None),
      \<lparr>world = 2, sent = [''GET zones/example.com'']\<rparr>) \<and>
   record_pages (demo True) \<lparr>world = 2, sent = [''GET zones/example.com'']\<rparr>
     ''zones/example.com?page=2''
     [(zone_named ''EXAMPLE.COM'' [''ftp''], response 200 ''zones/example.com?page=3''),
      (zone_named ''example.com'' [''ns1''], response 200 [])]
     \<lparr>world = 0, sent = [''GET zones/example.com'', ''GET zones/example.com?page=2'',
                         ''GET zones/example.com?page=3'']\<rparr> \<and>
   (\<exists>z' resp. Get (demo True) ''example.com'' (start 3) =
       Some (Return (Some z', resp, None),
             \<lparr>world = 0, sent = [''GET zones/example.com'', ''GET zones/example.com?page=2'',
                                 ''GET zones/example.com?page=3'']\<rparr>) \<and>
     Records z' = [''www'', ''mail'', ''ftp'', ''ns1''] \<and> Zone z' = ''example.com'')"
proof -
  have h1: "FollowPagination (demo True)" by (simp add: demo_def)
  have h2: "NewRequest (demo True) ''GET'' (''zones/'' @ ''example.com'') None =
     Inr ''GET zones/example.com''"
    by (simp add: demo_def)
  have h3: "exec_zone (demo True) (start 3) ''GET zones/example.com'' (zero_Zone (demo True)) =
     ((zone_named ''example.com'' [''www'', ''mail''],
       Some (response 200 ''zones/example.com?page=2''), None),
      \<lparr>world = 2, sent = [''GET zones/example.com'']\<rparr>)"
    by (simp add: demo_def exec_zone_def start_def)
  have h4: "record_pages (demo True) \<lparr>world = 2, sent = [''GET zones/example.com'']\<rparr>
     (ParseLink_Next (demo True) (Link (response 200 ''zones/example.com?page=2'')))
     [(zone_named ''EXAMPLE.COM'' [''ftp''], response 200 ''zones/example.com?page=3''),
      (zone_named ''example.com'' [''ns1''], response 200 [])]
     \<lparr>world = 0, sent = [''GET zones/example.com'', ''GET zones/example.com?page=2'',
                         ''GET zones/example.com?page=3'']\<rparr>"
    by (simp add: demo_def exec_zone_def response_def)
  have h4': "ParseLink_Next (demo True) (Link (response 200 ''zones/example.com?page=2'')) =
     ''zones/example.com?page=2''"
    by (simp add: demo_def response_def)
  have rs: "Records (zone_named n rs) = rs" "Zone (zone_named n rs) = n" for n rs
    by (simp_all add: zone_named_def)
  from Get_concatenates_records [OF h1 h2 h3 h4]
  have c: "\<exists>z' resp. Get (demo True) ''example.com'' (start 3) =
       Some (Return (Some z', resp, None),
             \<lparr>world = 0, sent = [''GET zones/example.com'', ''GET zones/example.com?page=2'',
                                 ''GET zones/example.com?page=3'']\<rparr>) \<and>
     Records z' = [''www'', ''mail'', ''ftp'', ''ns1''] \<and> Zone z' = ''example.com''"
    by (auto simp add: rs)
  from h1 h2 h3 h4 [unfolded h4'] c show ?thesis by - (intro conjI; assumption)
qed

text \<open>
  C3. A List walk in which a follow-up fetch fails, in request construction or in
  \<^verbatim>\<open>Do\<close> (transport or decoding), after any number of follow-up pages that arrived:
  List stops at that fetch and returns the nil zone list with the error of that
  fetch; the zones of the first page and of the pages that arrived are not returned.
\<close>

theorem List_failed_walk_returns_nil_and_error:
  assumes "FollowPagination c"
    and "NewRequest c ''GET'' ''zones'' None = Inr req"
    and "exec_zones c st req [] = ((zs, Some r, None), st1)"
    and "zone_pages_fail c st1 (ParseLink_Next c (Link r)) ps e st'"
  shows "\<exists>resp. List c st = Some (Return (None, resp, Some e), st')"
  using List_pages_fail [OF assms] by simp

theorem List_failed_walk_returns_nil_and_error_witness:
  "FollowPagination (demo True) \<and>
   NewRequest (demo True) ''GET'' ''zones'' None = Inr ''GET zones'' \<and>
   exec_zones (demo True) (start 2) ''GET zones'' [] =
     (([zone_named ''a'' [], zone_named ''b'' []], Some (response 200 ''zones?page=2''), None),
      \<lparr>world = 1, sent = [''GET zones'']\<rparr>) \<and>
   zone_pages_fail (demo True) \<lparr>world = 1, sent = [''GET zones'']\<rparr> ''zones?page=2''
     [([zone_named ''c'' []], response 200 ''zones?page=3'')]
     (Opaque ''connection refused'')
     \<lparr>world = 0, sent = [''GET zones'', ''GET zones?page=2'', ''GET zones?page=3'']\<rparr> \<and>
   (\<exists>resp. List (demo True) (start 2) =
       Some (Return (None, resp, Some (Opaque ''connection refused'')),
             \<lparr>world = 0, sent = [''GET zones'', ''GET zones?page=2'', ''GET zones?page=3'']\<rparr>))"
proof -
  have h1: "FollowPagination (demo True)" by (simp add: demo_def)
  have h2: "NewRequest (demo True) ''GET'' ''zones'' None = Inr ''GET zones''"
    by (simp add: demo_def)
  have h3: "exec_zones (demo True) (start 2) ''GET zones'' [] =
     (([zone_named ''a'' [], zone_named ''b'' []], Some (response 200 ''zones?page=2''), None),
      \<lparr>world = 1, sent = [''GET zones'']\<rparr>)"
    by (simp add: demo_def exec_zones_def start_def)
  have h4: "zone_pages_fail (demo True) \<lparr>world = 1, sent = [''GET zones'']\<rparr>
     (ParseLink_Next (demo True) (Link (response 200 ''zones?page=2'')))
     [([zone_named ''c'' []], response 200 ''zones?page=3'')]
     (Opaque ''connection refused'')
     \<lparr>world = 0, sent = [''GET zones'', ''GET zones?page=2'', ''GET zones?page=3'']\<rparr>"
    by (simp add: demo_def exec_zones_def response_def)
  have h4': "ParseLink_Next (demo True) (Link (response 200 ''zones?page=2'')) = ''zones?page=2''"
    by (simp add: demo_def response_def)
  from List_failed_walk_returns_nil_and_error [OF h1 h2 h3 h4]
  have c: "\<exists>resp. List (demo True) (start 2) =
       Some (Return (None, resp, Some (Opaque ''connection refused'')),
             \<lparr>world = 0, sent = [''GET zones'', ''GET zones?page=2'', ''GET zones?page=3'']\<rparr>)" .
  from h1 h2 h3 h4 [unfolded h4'] c show ?thesis by - (intro conjI; assumption)
qed

text \<open>
  C4, as stated, fails. Of three pages of zones the first two arrive and the fetch of
  the third fails: the response List returns with the error is the one of the first
  page (next pointer \<open>zones?page=2\<close>), not the one of the second page, the last fetch
  that succeeded (next pointer \<open>zones?page=3\<close>).
\<close>

theorem failed_walk_response_counterexample:
  "exec_zones (demo True) (start 2) ''GET zones'' [] =
     (([zone_named ''a'' [], zone_named ''b'' []], Some (response 200 ''zones?page=2''), None),
      \<lparr>world = 1, sent = [''GET zones'']\<rparr>) \<and>
   zone_pages_fail (demo True) \<lparr>world = 1, sent = [''GET zones'']\<rparr> ''zones?page=2''
     [([zone_named ''c'' []], response 200 ''zones?page=3'')]
     (Opaque ''connection refused'')
     \<lparr>world = 0, sent = [''GET zones'', ''GET zones?page=2'', ''GET zones?page=3'']\<rparr> \<and>
   List (demo True) (start 2) =
     Some (Return (None, Some (response 200 ''zones?page=2''),
                   Some (Opaque ''connection refused'')),
           \<lparr>world = 0, sent = [''GET zones'', ''GET zones?page=2'', ''GET zones?page=3'']\<rparr>) \<and>
   response 200 ''zones?page=2'' \<noteq> response 200 ''zones?page=3''"
  by (simp add: List_def List_loop.simps nextZones_def exec_zones_def demo_def start_def
      response_def)

text \<open>
  C4, amended. In a walk of List or of Get in which a follow-up fetch fails, after any
  number of follow-up pages that arrived, the response returned with the error is
  the response of the operation's first request.
\<close>

theorem failed_walk_returns_first_response:
  "(FollowPagination c \<and> NewRequest c ''GET'' ''zones'' None = Inr req \<and>
    exec_zones c st req [] = ((zs, Some r, None), st1) \<and>
    zone_pages_fail c st1 (ParseLink_Next c (Link r)) ps e st' \<longrightarrow>
      (\<exists>zl. List c st = Some (Return (zl, Some r, Some e), st'))) \<and>
   (FollowPagination c \<and> NewRequest c ''GET'' (''zones/'' @ zone) None = Inr req2 \<and>
    exec_zone c st req2 (zero_Zone c) = ((z, Some r2, None), st2) \<and>
    record_pages_fail c st2 (ParseLink_Next c (Link r2)) qs e2 st'' \<longrightarrow>
      (\<exists>zo. Get c zone st = Some (Return (zo, Some r2, Some e2), st'')))"
proof (intro conjI impI)
  assume "FollowPagination c \<and> NewRequest c ''GET'' ''zones'' None = Inr req \<and>
    exec_zones c st req [] = ((zs, Some r, None), st1) \<and>
    zone_pages_fail c st1 (ParseLink_Next c (Link r)) ps e st'"
  then have "List c st = Some (Return (None, Some r, Some e), st')"
    by (blast intro: List_pages_fail)
  then show "\<exists>zl. List c st = Some (Return (zl, Some r, Some e), st')" by blast
next
  assume "FollowPagination c \<and> NewRequest c ''GET'' (''zones/'' @ zone) None = Inr req2 \<and>
    exec_zone c st req2 (zero_Zone c) = ((z, Some r2, None), st2) \<and>
    record_pages_fail c st2 (ParseLink_Next c (Link r2)) qs e2 st''"
  then have "Get c zone st = Some (Return (None, Some r2, Some e2), st'')"
    by (blast intro: Get_pages_fail)
  then show "\<exists>zo. Get c zone st = Some (Return (zo, Some r2, Some e2), st'')" by blast
qed

theorem failed_walk_returns_first_response_witness:
  "(\<exists>zl. List (demo True) (start 2) =
      Some (Return (zl, Some (response 200 ''zones?page=2''),
                    Some (Opaque ''connection refused'')),
            \<lparr>world = 0, sent = [''GET zones'', ''GET zones?page=2'', ''GET zones?page=3'']\<rparr>)) \<and>
   (\<exists>zo. Get (demo True) ''example.com'' (start 2) =
      Some (Return (zo, Some (response 200 ''zones/example.com?page=2''),
                    Some (Opaque ''connection refused'')),
            \<lparr>world = 0, sent = [''GET zones/example.com'', ''GET zones/example.com?page=2'',
                                ''GET zones/example.com?page=3'']\<rparr>))"
proof -
  have l: "FollowPagination (demo True) \<and>
    NewRequest (demo True) ''GET'' ''zones'' None = Inr ''GET zones'' \<and>
    exec_zones (demo True) (start 2) ''GET zones'' [] =
      (([zone_named ''a'' [], zone_named ''b'' []], Some (response 200 ''zones?page=2''), None),
       \<lparr>world = 1, sent = [''GET zones'']\<rparr>) \<and>
    zone_pages_fail (demo True) \<lparr>world = 1, sent = [''GET zones'']\<rparr>
      (ParseLink_Next (demo True) (Link (response 200 ''zones?page=2'')))
      [([zone_named ''c'' []], response 200 ''zones?page=3'')]
      (Opaque ''connection refused'')
      \<lparr>world = 0, sent = [''GET zones'', ''GET zones?page=2'', ''GET zones?page=3'']\<rparr>"
    by (simp add: demo_def exec_zones_def start_def response_def)
  have g: "FollowPagination (demo True) \<and>
    NewRequest (demo True) ''GET'' (''zones/'' @ ''example.com'') None =
      Inr ''GET zones/example.com'' \<and>
    exec_zone (demo True) (start 2) ''GET zones/example.com'' (zero_Zone (demo True)) =
      ((zone_named ''example.com'' [''www'', ''mail''],
        Some (response 200 ''zones/example.com?page=2''), None),
       \<lparr>world = 1, sent = [''GET zones/example.com'']\<rparr>) \<and>
    record_pages_fail (demo True) \<lparr>world = 1, sent = [''GET zones/example.com'']\<rparr>
      (ParseLink_Next (demo True) (Link (response 200 ''zones/example.com?page=2'')))
      [(zone_named ''EXAMPLE.COM'' [''ftp''], response 200 ''zones/example.com?page=3'')]
      (Opaque ''connection refused'')
      \<lparr>world = 0, sent = [''GET zones/example.com'', ''GET zones/example.com?page=2'',
                          ''GET zones/example.com?page=3'']\<rparr>"
    by (simp add: demo_def exec_zone_def start_def response_def)
  from failed_walk_returns_first_response
    [of "demo True" "''GET zones''" "start 2" "[zone_named ''a'' [], zone_named ''b'' []]"
        "response 200 ''zones?page=2''" "\<lparr>world = 1, sent = [''GET zones'']\<rparr>"
        "[([zone_named ''c'' []], response 200 ''zones?page=3'')]"
        "Opaque ''connection refused''"
        "\<lparr>world = 0, sent = [''GET zones'', ''GET zones?page=2'', ''GET zones?page=3'']\<rparr>"
        "''example.com''" "''GET zones/example.com''"
        "zone_named ''example.com'' [''www'', ''mail'']"
        "response 200 ''zones/example.com?page=2''"
        "\<lparr>world = 1, sent = [''GET zones/example.com'']\<rparr>"
        "[(zone_named ''EXAMPLE.COM'' [''ftp''], response 200 ''zones/example.com?page=3'')]"
        "Opaque ''connection refused''"
        "\<lparr>world = 0, sent = [''GET zones/example.com'', ''GET zones/example.com?page=2'',
                            ''GET zones/example.com?page=3'']\<rparr>"]
    l g
  show ?thesis by blast
qed

text \<open>
  C5, as stated, fails. Three pages of zones arrive: List returns the four zones and no
  error, with the response of the first page (next pointer \<open>zones?page=2\<close>), not the
  response of the last page (no next pointer).
\<close>

theorem List_last_response_counterexample:
  "exec_zones (demo True) (start 3) ''GET zones'' [] =
     (([zone_named ''a'' [], zone_named ''b'' []], Some (response 200 ''zones?page=2''), None),
      \<lparr>world = 2, sent = [''GET zones'']\<rparr>) \<and>
   zone_pages (demo True) \<lparr>world = 2, sent = [''GET zones'']\<rparr> ''zones?page=2''
     [([zone_named ''c'' []], response 200 ''zones?page=3''),
      ([zone_named ''d'' []], response 200 [])]
     \<lparr>world = 0, sent = [''GET zones'', ''GET zones?page=2'', ''GET zones?page=3'']\<rparr> \<and>
   List (demo True) (start 3) =
     Some (Return (Some [zone_named ''a'' [], zone_named ''b'' [], zone_named ''c'' [],
                         zone_named ''d'' []],
                   Some (response 200 ''zones?page=2''), None),
           \<lparr>world = 0, sent = [''GET zones'', ''GET zones?page=2'', ''GET zones?page=3'']\<rparr>) \<and>
   response 200 ''zones?page=2'' \<noteq> response 200 []"
  by (simp add: List_def List_loop.simps nextZones_def exec_zones_def demo_def start_def
      response_def)

text \<open>
  C5, amended. A List walk with pagination enabled whose pages all arrive returns the
  full list and no error, with the response of the first request.
\<close>

theorem List_success_returns_first_response:
  assumes "FollowPagination c"
    and "NewRequest c ''GET'' ''zones'' None = Inr req"
    and "exec_zones c st req [] = ((zs, Some r, None), st1)"
    and "zone_pages c st1 (ParseLink_Next c (Link r)) ps st'"
  shows "List c st = Some (Return (Some (concat (zs # map fst ps)), Some r, None), st')"
  using List_pages [OF assms] by simp

theorem List_success_returns_first_response_witness:
  "FollowPagination (demo True) \<and>
   NewRequest (demo True) ''GET'' ''zones'' None = Inr ''GET zones'' \<and>
   exec_zones (demo True) (start 3) ''GET zones'' [] =
     (([zone_named ''a'' [], zone_named ''b'' []], Some (response 200 ''zones?page=2''), None),
      \<lparr>world = 2, sent = [''GET zones'']\<rparr>) \<and>
   zone_pages (demo True) \<lparr>world = 2, sent = [''GET zones'']\<rparr> ''zones?page=2''
     [([zone_named ''c'' []], response 200 ''zones?page=3''),
      ([zone_named ''d'' []], response 200 [])]
     \<lparr>world = 0, sent = [''GET zones'', ''GET zones?page=2'', ''GET zones?page=3'']\<rparr> \<and>
   List (demo True) (start 3) =
     Some (Return (Some [zone_named ''a'' [], zone_named ''b'' [], zone_named ''c'' [],
                         zone_named ''d'' []],
                   Some (response 200 ''zones?page=2''), None),
           \<lparr>world = 0, sent = [''GET zones'', ''GET zones?page=2'', ''GET zones?page=3'']\<rparr>)"
proof -
  have h1: "FollowPagination (demo True)" by (simp add: demo_def)
  have h2: "NewRequest (demo True) ''GET'' ''zones'' None = Inr ''GET zones''"
    by (simp add: demo_def)
  have h3: "exec_zones (demo True) (start 3) ''GET zones'' [] =
     (([zone_named ''a'' [], zone_named ''b'' []], Some (response 200 ''zones?page=2''), None),
      \<lparr>world = 2, sent = [''GET zones'']\<rparr>)"
    by (simp add: demo_def exec_zones_def start_def)
  have h4: "zone_pages (demo True) \<lparr>world = 2, sent = [''GET zones'']\<rparr>
     (ParseLink_Next (demo True) (Link (response 200 ''zones?page=2'')))
     [([zone_named ''c'' []], response 200 ''zones?page=3''),
      ([zone_named ''d'' []], response 200 [])]
     \<lparr>world = 0, sent = [''GET zones'', ''GET zones?page=2'', ''GET zones?page=3'']\<rparr>"
    by (simp add: demo_def exec_zones_def response_def)
  have h4': "ParseLink_Next (demo True) (Link (response 200 ''zones?page=2'')) = ''zones?page=2''"
    by (simp add: demo_def response_def)
  from List_success_returns_first_response [OF h1 h2 h3 h4]
  have c: "List (demo True) (start 3) =
     Some (Return (Some [zone_named ''a'' [], zone_named ''b'' [], zone_named ''c'' [],
                         zone_named ''d'' []],
                   Some (response 200 ''zones?page=2''), None),
           \<lparr>world = 0, sent = [''GET zones'', ''GET zones?page=2'', ''GET zones?page=3'']\<rparr>)"
    by simp
  from h1 h2 h3 h4 [unfolded h4'] c show ?thesis by - (intro conjI; assumption)
qed

text \<open>
  C6. With \<^verbatim>\<open>FollowPagination\<close> off, List and Get whose first request succeeds return
  what that request decoded, with its response and no error, whatever the \<^verbatim>\<open>Link\<close>
  header of the response says; the request is the only one handed to the executor.
\<close>

theorem no_pagination_returns_first_page_only:
  "(\<not> FollowPagination c \<and> NewRequest c ''GET'' ''zones'' None = Inr req \<and>
    exec_zones c st req [] = ((zs, resp, None), st1) \<longrightarrow>
      List c st = Some (Return (Some zs, resp, None), st1) \<and> sent st1 = sent st @ [req]) \<and>
   (\<not> FollowPagination c \<and> NewRequest c ''GET'' (''zones/'' @ zone) None = Inr req2 \<and>
    exec_zone c st req2 (zero_Zone c) = ((z, resp2, None), st2) \<longrightarrow>
      Get c zone st = Some (Return (Some z, resp2, None), st2) \<and> sent st2 = sent st @ [req2])"
  by (auto simp add: List_def Get_def exec_zones_def exec_zone_def split: prod.splits)

theorem no_pagination_returns_first_page_only_witness:
  "ParseLink_Next (demo False) (Link (response 200 ''zones?page=2'')) \<noteq> [] \<and>
   List (demo False) (start 3) =
     Some (Return (Some [zone_named ''a'' [], zone_named ''b'' []],
                   Some (response 200 ''zones?page=2''), None),
           \<lparr>world = 2, sent = [''GET zones'']\<rparr>) \<and>
   ParseLink_Next (demo False) (Link (response 200 ''zones/example.com?page=2'')) \<noteq> [] \<and>
   Get (demo False) ''example.com'' (start 3) =
     Some (Return (Some (zone_named ''example.com'' [''www'', ''mail'']),
                   Some (response 200 ''zones/example.com?page=2''), None),
           \<lparr>world = 2, sent = [''GET zones/example.com'']\<rparr>)"
proof -
  have l: "\<not> FollowPagination (demo False) \<and>
    NewRequest (demo False) ''GET'' ''zones'' None = Inr ''GET zones'' \<and>
    exec_zones (demo False) (start 3) ''GET zones'' [] =
      (([zone_named ''a'' [], zone_named ''b'' []], Some (response 200 ''zones?page=2''), None),
       \<lparr>world = 2, sent = [''GET zones'']\<rparr>)"
    by (simp add: demo_def exec_zones_def start_def)
  have g: "\<not> FollowPagination (demo False) \<and>
    NewRequest (demo False) ''GET'' (''zones/'' @ ''example.com'') None =
      Inr ''GET zones/example.com'' \<and>
    exec_zone (demo False) (start 3) ''GET zones/example.com'' (zero_Zone (demo False)) =
      ((zone_named ''example.com'' [''www'', ''mail''],
        Some (response 200 ''zones/example.com?page=2''), None),
       \<lparr>world = 2, sent = [''GET zones/example.com'']\<rparr>)"
    by (simp add: demo_def exec_zone_def start_def)
  have n: "ParseLink_Next (demo False) (Link (response 200 u)) = u" for u
    by (simp add: demo_def response_def)
  from no_pagination_returns_first_page_only
    [of "demo False" "''GET zones''" "start 3" "[zone_named ''a'' [], zone_named ''b'' []]"
        "Some (response 200 ''zones?page=2'')" "\<lparr>world = 2, sent = [''GET zones'']\<rparr>"
        "''example.com''" "''GET zones/example.com''"
        "zone_named ''example.com'' [''www'', ''mail'']"
        "Some (response 200 ''zones/example.com?page=2'')"
        "\<lparr>world = 2, sent = [''GET zones/example.com'']\<rparr>"]
    l g
  show ?thesis by (simp add: n)
qed

text \<open>
  C7. When \<^verbatim>\<open>Do\<close> fails in Create, a structured error whose message is
  \<open>zone already exists\<close> becomes \<^verbatim>\<open>ErrZoneExists\<close>, a value different from every
  structured error and from \<^verbatim>\<open>ErrZoneMissing\<close>, and every other error is returned as it
  is. List, Get, Update and Delete return a structured error with that message as it
  is.
\<close>

theorem zone_already_exists_classified_by_Create_only:
  "(NewRequest c ''PUT'' (''zones/'' @ Zone z) (Some z) = Inr reqC \<and>
    exec_zone c st reqC z = ((zC, respC, Some e), stC) \<longrightarrow>
      Create c (Some z) st =
        (Return (zC, respC, Some (if e = Error ''zone already exists'' then ErrZoneExists else e)),
         stC)) \<and>
   (\<forall>m. ErrZoneExists \<noteq> Error m) \<and> ErrZoneExists \<noteq> ErrZoneMissing \<and>
   (NewRequest c ''GET'' ''zones'' None = Inr reqL \<and>
    exec_zones c st reqL [] = ((zl, respL, Some (Error ''zone already exists'')), stL) \<longrightarrow>
      List c st = Some (Return (None, respL, Some (Error ''zone already exists'')), stL)) \<and>
   (NewRequest c ''GET'' (''zones/'' @ zone) None = Inr reqG \<and>
    exec_zone c st reqG (zero_Zone c) =
      ((zG, respG, Some (Error ''zone already exists'')), stG) \<longrightarrow>
      Get c zone st = Some (Return (None, respG, Some (Error ''zone already exists'')), stG)) \<and>
   (NewRequest c ''POST'' (''zones/'' @ Zone z) (Some z) = Inr reqU \<and>
    exec_zone c st reqU z = ((zU, respU, Some (Error ''zone already exists'')), stU) \<longrightarrow>
      Update c (Some z) st = (Return (zU, respU, Some (Error ''zone already exists'')), stU)) \<and>
   (NewRequest c ''DELETE'' (''zones/'' @ zone) None = Inr reqD \<and>
    exec_nil c st reqD = ((respD, Some (Error ''zone already exists'')), stD) \<longrightarrow>
      Delete c zone st = ((respD, Some (Error ''zone already exists'')), stD))"
  by (simp add: List_def Get_def Create_def Update_def Delete_def split: go_error.splits)

theorem zone_already_exists_classified_by_Create_only_witness:
  "Create (failing (Error ''zone already exists'')) (Some (zone_named ''example.com'' [])) (start ()) =
     (Return (zone_named ''example.com'' [], Some (response 500 []), Some ErrZoneExists),
      \<lparr>world = (), sent = [(''PUT'', ''zones/example.com'')]\<rparr>) \<and>
   Create (failing (Error ''quota exceeded'')) (Some (zone_named ''example.com'' [])) (start ()) =
     (Return (zone_named ''example.com'' [], Some (response 500 []), Some (Error ''quota exceeded'')),
      \<lparr>world = (), sent = [(''PUT'', ''zones/example.com'')]\<rparr>) \<and>
   Create (failing (Opaque ''timeout'')) (Some (zone_named ''example.com'' [])) (start ()) =
     (Return (zone_named ''example.com'' [], Some (response 500 []), Some (Opaque ''timeout'')),
      \<lparr>world = (), sent = [(''PUT'', ''zones/example.com'')]\<rparr>) \<and>
   List (failing (Error ''zone already exists'')) (start ()) =
     Some (Return (None, Some (response 500 []), Some (Error ''zone already exists'')),
           \<lparr>world = (), sent = [(''GET'', ''zones'')]\<rparr>) \<and>
   Get (failing (Error ''zone already exists'')) ''example.com'' (start ()) =
     Some (Return (None, Some (response 500 []), Some (Error ''zone already exists'')),
           \<lparr>world = (), sent = [(''GET'', ''zones/example.com'')]\<rparr>) \<and>
   Update (failing (Error ''zone already exists'')) (Some (zone_named ''example.com'' [])) (start ()) =
     (Return (zone_named ''example.com'' [], Some (response 500 []),
       Some (Error ''zone already exists'')),
      \<lparr>world = (), sent = [(''POST'', ''zones/example.com'')]\<rparr>) \<and>
   Delete (failing (Error ''zone already exists'')) ''example.com'' (start ()) =
     ((Some (response 500 []), Some (Error ''zone already exists'')),
      \<lparr>world = (), sent = [(''DELETE'', ''zones/example.com'')]\<rparr>)"
proof -
  have nr: "NewRequest (failing e) m p b = Inr (m, p)" for e m p b
    by (simp add: failing_def)
  have zz: "zero_Zone (failing e) = zone_named [] []" for e
    by (simp add: failing_def)
  have nm: "Zone (zone_named n rs) = n" for n rs
    by (simp add: zone_named_def)
  have ez: "exec_zone (failing e) (start ()) q v =
      ((v, Some (response 500 []), Some e), \<lparr>world = (), sent = [q]\<rparr>)" for e q v
    by (simp add: failing_def exec_zone_def start_def)
  have ezs: "exec_zones (failing e) (start ()) q v =
      ((v, Some (response 500 []), Some e), \<lparr>world = (), sent = [q]\<rparr>)" for e q v
    by (simp add: failing_def exec_zones_def start_def)
  have en: "exec_nil (failing e) (start ()) q =
      ((Some (response 500 []), Some e), \<lparr>world = (), sent = [q]\<rparr>)" for e q
    by (simp add: failing_def exec_nil_def start_def)
  note t = zone_already_exists_classified_by_Create_only
    [where st = "start ()" and z = "zone_named ''example.com'' []"
       and zone = "''example.com''" and reqC = "(''PUT'', ''zones/example.com'')"
       and zC = "zone_named ''example.com'' []" and respC = "Some (response 500 [])"
       and stC = "\<lparr>world = (), sent = [(''PUT'', ''zones/example.com'')]\<rparr>"
       and reqL = "(''GET'', ''zones'')" and zl = "[]" and respL = "Some (response 500 [])"
       and stL = "\<lparr>world = (), sent = [(''GET'', ''zones'')]\<rparr>"
       and reqG = "(''GET'', ''zones/example.com'')" and zG = "zone_named [] []"
       and respG = "Some (response 500 [])"
       and stG = "\<lparr>world = (), sent = [(''GET'', ''zones/example.com'')]\<rparr>"
       and reqU = "(''POST'', ''zones/example.com'')" and zU = "zone_named ''example.com'' []"
       and respU = "Some (response 500 [])"
       and stU = "\<lparr>world = (), sent = [(''POST'', ''zones/example.com'')]\<rparr>"
       and reqD = "(''DELETE'', ''zones/example.com'')" and respD = "Some (response 500 [])"
       and stD = "\<lparr>world = (), sent = [(''DELETE'', ''zones/example.com'')]\<rparr>"]
  from t [where c = "failing (Error ''zone already exists'')"
            and e = "Error ''zone already exists''"]
    t [where c = "failing (Error ''quota exceeded'')" and e = "Error ''quota exceeded''"]
    t [where c = "failing (Opaque ''timeout'')" and e = "Opaque ''timeout''"]
  show ?thesis by (simp add: nr zz nm ez ezs en)
qed

text \<open>
  C8. When \<^verbatim>\<open>Do\<close> fails in the request of Get, Update or Delete, a structured error
  whose message is \<open>zone not found\<close> becomes \<^verbatim>\<open>ErrZoneMissing\<close>, the same value in the
  three operations, and every other error is returned as it is.
\<close>

theorem zone_not_found_becomes_ErrZoneMissing:
  "(NewRequest c ''GET'' (''zones/'' @ zone) None = Inr reqG \<and>
    exec_zone c st reqG (zero_Zone c) = ((zG, respG, Some eG), stG) \<longrightarrow>
      Get c zone st =
        Some (Return (None, respG,
                      Some (if eG = Error ''zone not found'' then ErrZoneMissing else eG)),
              stG)) \<and>
   (NewRequest c ''POST'' (''zones/'' @ Zone z) (Some z) = Inr reqU \<and>
    exec_zone c st reqU z = ((zU, respU, Some eU), stU) \<longrightarrow>
      Update c (Some z) st =
        (Return (zU, respU, Some (if eU = Error ''zone not found'' then ErrZoneMissing else eU)),
         stU)) \<and>
   (NewRequest c ''DELETE'' (''zones/'' @ zone) None = Inr reqD \<and>
    exec_nil c st reqD = ((respD, Some eD), stD) \<longrightarrow>
      Delete c zone st =
        ((respD, Some (if eD = Error ''zone not found'' then ErrZoneMissing else eD)), stD)) \<and>
   (\<forall>m. ErrZoneMissing \<noteq> Error m) \<and> ErrZoneMissing \<noteq> ErrZoneExists"
  by (simp add: Get_def Update_def Delete_def split: go_error.splits)

theorem zone_not_found_becomes_ErrZoneMissing_witness:
  "Get (demo True) ''missing.org'' (start 1) =
     Some (Return (None, Some (response 404 []), Some ErrZoneMissing),
           \<lparr>world = 0, sent = [''GET zones/missing.org'']\<rparr>) \<and>
   Update (demo True) (Some (zone_named ''missing.org'' [])) (start 1) =
     (Return (zone_named ''missing.org'' [], Some (response 404 []), Some ErrZoneMissing),
      \<lparr>world = 0, sent = [''POST zones/missing.org'']\<rparr>) \<and>
   Delete (demo True) ''missing.org'' (start 1) =
     ((Some (response 404 []), Some ErrZoneMissing),
      \<lparr>world = 0, sent = [''DELETE zones/missing.org'']\<rparr>) \<and>
   Get (demo True) ''missing.org'' (start 0) =
     Some (Return (None, None, Some (Opaque ''connection refused'')),
           \<lparr>world = 0, sent = [''GET zones/missing.org'']\<rparr>) \<and>
   Update (demo True) (Some (zone_named ''missing.org'' [])) (start 0) =
     (Return (zone_named ''missing.org'' [], None, Some (Opaque ''connection refused'')),
      \<lparr>world = 0, sent = [''POST zones/missing.org'']\<rparr>) \<and>
   Delete (demo True) ''missing.org'' (start 0) =
     ((None, Some (Opaque ''connection refused'')),
      \<lparr>world = 0, sent = [''DELETE zones/missing.org'']\<rparr>)"
proof -
  let ?z = "zone_named ''missing.org'' []"
  have g1: "NewRequest (demo True) ''GET'' (''zones/'' @ ''missing.org'') None =
      Inr ''GET zones/missing.org'' \<and>
    exec_zone (demo True) (start 1) ''GET zones/missing.org'' (zero_Zone (demo True)) =
      ((zero_Zone (demo True), Some (response 404 []), Some (Error ''zone not found'')),
       \<lparr>world = 0, sent = [''GET zones/missing.org'']\<rparr>)"
    and u1: "NewRequest (demo True) ''POST'' (''zones/'' @ Zone ?z) (Some ?z) =
      Inr ''POST zones/missing.org'' \<and>
    exec_zone (demo True) (start 1) ''POST zones/missing.org'' ?z =
      ((?z, Some (response 404 []), Some (Error ''zone not found'')),
       \<lparr>world = 0, sent = [''POST zones/missing.org'']\<rparr>)"
    and d1: "NewRequest (demo True) ''DELETE'' (''zones/'' @ ''missing.org'') None =
      Inr ''DELETE zones/missing.org'' \<and>
    exec_nil (demo True) (start 1) ''DELETE zones/missing.org'' =
      ((Some (response 404 []), Some (Error ''zone not found'')),
       \<lparr>world = 0, sent = [''DELETE zones/missing.org'']\<rparr>)"
    by (simp_all add: demo_def exec_zone_def exec_nil_def start_def zone_named_def)
  have g0: "NewRequest (demo True) ''GET'' (''zones/'' @ ''missing.org'') None =
      Inr ''GET zones/missing.org'' \<and>
    exec_zone (demo True) (start 0) ''GET zones/missing.org'' (zero_Zone (demo True)) =
      ((zero_Zone (demo True), None, Some (Opaque ''connection refused'')),
       \<lparr>world = 0, sent = [''GET zones/missing.org'']\<rparr>)"
    and u0: "NewRequest (demo True) ''POST'' (''zones/'' @ Zone ?z) (Some ?z) =
      Inr ''POST zones/missing.org'' \<and>
    exec_zone (demo True) (start 0) ''POST zones/missing.org'' ?z =
      ((?z, None, Some (Opaque ''connection refused'')),
       \<lparr>world = 0, sent = [''POST zones/missing.org'']\<rparr>)"
    and d0: "NewRequest (demo True) ''DELETE'' (''zones/'' @ ''missing.org'') None =
      Inr ''DELETE zones/missing.org'' \<and>
    exec_nil (demo True) (start 0) ''DELETE zones/missing.org'' =
      ((None, Some (Opaque ''connection refused'')),
       \<lparr>world = 0, sent = [''DELETE zones/missing.org'']\<rparr>)"
    by (simp_all add: demo_def exec_zone_def exec_nil_def start_def zone_named_def)
  note t = zone_not_found_becomes_ErrZoneMissing
    [where c = "demo True" and zone = "''missing.org''" and z = ?z
       and reqG = "''GET zones/missing.org''" and reqU = "''POST zones/missing.org''"
       and reqD = "''DELETE zones/missing.org''"
       and zG = "zero_Zone (demo True)" and zU = ?z
       and stG = "\<lparr>world = 0, sent = [''GET zones/missing.org'']\<rparr>"
       and stU = "\<lparr>world = 0, sent = [''POST zones/missing.org'']\<rparr>"
       and stD = "\<lparr>world = 0, sent = [''DELETE zones/missing.org'']\<rparr>"]
  note t1 = t [where st = "start 1" and eG = "Error ''zone not found''"
      and eU = "Error ''zone not found''" and eD = "Error ''zone not found''"
      and respG = "Some (response 404 [])" and respU = "Some (response 404 [])"
      and respD = "Some (response 404 [])"]
  note t0 = t [where st = "start 0" and eG = "Opaque ''connection refused''"
      and eU = "Opaque ''connection refused''" and eD = "Opaque ''connection refused''"
      and respG = None and respU = None and respD = None]
  have c1: "Get (demo True) ''missing.org'' (start 1) =
     Some (Return (None, Some (response 404 []), Some ErrZoneMissing),
           \<lparr>world = 0, sent = [''GET zones/missing.org'']\<rparr>)"
    "Update (demo True) (Some ?z) (start 1) =
     (Return (?z, Some (response 404 []), Some ErrZoneMissing),
      \<lparr>world = 0, sent = [''POST zones/missing.org'']\<rparr>)"
    "Delete (demo True) ''missing.org'' (start 1) =
     ((Some (response 404 []), Some ErrZoneMissing),
      \<lparr>world = 0, sent = [''DELETE zones/missing.org'']\<rparr>)"
    using t1 g1 u1 d1 by simp_all
  have c0: "Get (demo True) ''missing.org'' (start 0) =
     Some (Return (None, None, Some (Opaque ''connection refused'')),
           \<lparr>world = 0, sent = [''GET zones/missing.org'']\<rparr>)"
    "Update (demo True) (Some ?z) (start 0) =
     (Return (?z, None, Some (Opaque ''connection refused'')),
      \<lparr>world = 0, sent = [''POST zones/missing.org'']\<rparr>)"
    "Delete (demo True) ''missing.org'' (start 0) =
     ((None, Some (Opaque ''connection refused'')),
      \<lparr>world = 0, sent = [''DELETE zones/missing.org'']\<rparr>)"
    using t0 g0 u0 d0 by simp_all
  from c1 c0 show ?thesis by - (intro conjI; assumption)
qed

text \<open>
  C9. When the request cannot be built, each of the five operations returns the
  construction error with no response (and no data), in the state it was called in:
  \<open>sent\<close> is unchanged, so the executor was not called.
\<close>

theorem construction_error_returned_before_any_call:
  "(NewRequest c ''GET'' ''zones'' None = Inl e1 \<longrightarrow>
      List c st = Some (Return (None, None, Some e1), st)) \<and>
   (NewRequest c ''GET'' (''zones/'' @ zone) None = Inl e2 \<longrightarrow>
      Get c zone st = Some (Return (None, None, Some e2), st)) \<and>
   (NewRequest c ''PUT'' (''zones/'' @ Zone z) (Some z) = Inl e3 \<longrightarrow>
      Create c (Some z) st = (Return (z, None, Some e3), st)) \<and>
   (NewRequest c ''POST'' (''zones/'' @ Zone z) (Some z) = Inl e4 \<longrightarrow>
      Update c (Some z) st = (Return (z, None, Some e4), st)) \<and>
   (NewRequest c ''DELETE'' (''zones/'' @ zone) None = Inl e5 \<longrightarrow>
      Delete c zone st = ((None, Some e5), st))"
  by (simp add: List_def Get_def Create_def Update_def Delete_def)

theorem construction_error_returned_before_any_call_witness:
  "List (unbuildable (Opaque ''invalid URL'')) (start ()) =
     Some (Return (None, None, Some (Opaque ''invalid URL'')), start ()) \<and>
   Get (unbuildable (Opaque ''invalid URL'')) ''example.com'' (start ()) =
     Some (Return (None, None, Some (Opaque ''invalid URL'')), start ()) \<and>
   Create (unbuildable (Opaque ''invalid URL'')) (Some (zone_named ''example.com'' [])) (start ()) =
     (Return (zone_named ''example.com'' [], None, Some (Opaque ''invalid URL'')), start ()) \<and>
   Update (unbuildable (Opaque ''invalid URL'')) (Some (zone_named ''example.com'' [])) (start ()) =
     (Return (zone_named ''example.com'' [], None, Some (Opaque ''invalid URL'')), start ()) \<and>
   Delete (unbuildable (Opaque ''invalid URL'')) ''example.com'' (start ()) =
     ((None, Some (Opaque ''invalid URL'')), start ()) \<and>
   sent (start () :: (unit, string \<times> string) net) = []"
proof -
  have h: "NewRequest (unbuildable (Opaque ''invalid URL'')) m p b = Inl (Opaque ''invalid URL'')"
    for m p b by (simp add: unbuildable_def)
  show ?thesis
    using construction_error_returned_before_any_call
      [of "unbuildable (Opaque ''invalid URL'')" "Opaque ''invalid URL''" "start ()"
          "''example.com''" "Opaque ''invalid URL''" "zone_named ''example.com'' []"
          "Opaque ''invalid URL''" "Opaque ''invalid URL''" "Opaque ''invalid URL''"]
    by (simp add: h start_def)
qed

lemma Get_sentinel_origin:
  assumes sf: "sentinel_free c" and s: "is_sentinel eG"
    and r: "Get c zone st = Some (Return (zo, respG, Some eG), stG)"
  shows "zo = None \<and> eG = ErrZoneMissing \<and>
      (\<exists>req z'. NewRequest c ''GET'' (''zones/'' @ zone) None = Inr req \<and>
         exec_zone c st req (zero_Zone c) =
           ((z', respG, Some (Error ''zone not found'')), stG))"
proof (cases "NewRequest c ''GET'' (''zones/'' @ zone) None")
  case (Inl err)
  with r have "err = eG" by (simp add: Get_def)
  with Inl sf s show ?thesis by (auto dest: NewRequest_error_not_sentinel)
next
  case (Inr req)
  obtain z' resp eo st1 where
    ex: "exec_zone c st req (zero_Zone c) = ((z', resp, eo), st1)"
    by (metis prod_cases3 surj_pair)
  show ?thesis
  proof (cases eo)
    case None
    show ?thesis
    proof (cases "FollowPagination c")
      case False
      with Inr ex None r show ?thesis by (simp add: Get_def)
    next
      case True
      show ?thesis
      proof (cases resp)
        case None
        with Inr ex \<open>eo = None\<close> True r show ?thesis by (simp add: Get_def)
      next
        case (Some r1)
        with Inr ex \<open>eo = None\<close> True r
        have "Get_loop c r1 z' (ParseLink_Next c (Link r1)) st1 =
              Some (Return (zo, respG, Some eG), stG)"
          by (simp add: Get_def)
        from Get_loop_error_not_sentinel [OF this] sf s show ?thesis by blast
      qed
    qed
  next
    case (Some err)
    from sf ex Some have ns: "\<not> is_sentinel err"
      by (auto dest: exec_zone_error_not_sentinel)
    show ?thesis
    proof (cases "err = Error ''zone not found''")
      case True
      with Inr ex Some r show ?thesis by (simp add: Get_def)
    next
      case False
      with Inr ex Some r have "eG = err"
        by (cases err) (simp_all add: Get_def)
      with ns s show ?thesis by simp
    qed
  qed
qed

lemma Create_sentinel_origin:
  assumes sf: "sentinel_free c" and s: "is_sentinel eC"
    and r: "Create c (Some z) st = (Return (zC, respC, Some eC), stC)"
  shows "eC = ErrZoneExists \<and>
      (\<exists>req. NewRequest c ''PUT'' (''zones/'' @ Zone z) (Some z) = Inr req \<and>
         exec_zone c st req z = ((zC, respC, Some (Error ''zone already exists'')), stC))"
proof (cases "NewRequest c ''PUT'' (''zones/'' @ Zone z) (Some z)")
  case (Inl err)
  with r have "err = eC" by (simp add: Create_def)
  with Inl sf s show ?thesis by (auto dest: NewRequest_error_not_sentinel)
next
  case (Inr req)
  obtain z' resp eo st1 where ex: "exec_zone c st req z = ((z', resp, eo), st1)"
    by (metis prod_cases3 surj_pair)
  show ?thesis
  proof (cases eo)
    case None
    with Inr ex r show ?thesis by (simp add: Create_def)
  next
    case (Some err)
    from sf ex Some have ns: "\<not> is_sentinel err"
      by (auto dest: exec_zone_error_not_sentinel)
    show ?thesis
    proof (cases "err = Error ''zone already exists''")
      case True
      with Inr ex Some r show ?thesis by (simp add: Create_def)
    next
      case False
      with Inr ex Some r have "eC = err"
        by (cases err) (simp_all add: Create_def)
      with ns s show ?thesis by simp
    qed
  qed
qed

lemma Update_sentinel_origin:
  assumes sf: "sentinel_free c" and s: "is_sentinel eU"
    and r: "Update c (Some z) st = (Return (zU, respU, Some eU), stU)"
  shows "eU = ErrZoneMissing \<and>
      (\<exists>req. NewRequest c ''POST'' (''zones/'' @ Zone z) (Some z) = Inr req \<and>
         exec_zone c st req z = ((zU, respU, Some (Error ''zone not found'')), stU))"
proof (cases "NewRequest c ''POST'' (''zones/'' @ Zone z) (Some z)")
  case (Inl err)
  with r have "err = eU" by (simp add: Update_def)
  with Inl sf s show ?thesis by (auto dest: NewRequest_error_not_sentinel)
next
  case (Inr req)
  obtain z' resp eo st1 where ex: "exec_zone c st req z = ((z', resp, eo), st1)"
    by (metis prod_cases3 surj_pair)
  show ?thesis
  proof (cases eo)
    case None
    with Inr ex r show ?thesis by (simp add: Update_def)
  next
    case (Some err)
    from sf ex Some have ns: "\<not> is_sentinel err"
      by (auto dest: exec_zone_error_not_sentinel)
    show ?thesis
    proof (cases "err = Error ''zone not found''")
      case True
      with Inr ex Some r show ?thesis by (simp add: Update_def)
    next
      case False
      with Inr ex Some r have "eU = err"
        by (cases err) (simp_all add: Update_def)
      with ns s show ?thesis by simp
    qed
  qed
qed

lemma Delete_sentinel_origin:
  assumes sf: "sentinel_free c" and s: "is_sentinel eD"
    and r: "Delete c zone st = ((respD, Some eD), stD)"
  shows "eD = ErrZoneMissing \<and>
      (\<exists>req. NewRequest c ''DELETE'' (''zones/'' @ zone) None = Inr req \<and>
         exec_nil c st req = ((respD, Some (Error ''zone not found'')), stD))"
proof (cases "NewRequest c ''DELETE'' (''zones/'' @ zone) None")
  case (Inl err)
  with r have "err = eD" by (simp add: Delete_def)
  with Inl sf s show ?thesis by (auto dest: NewRequest_error_not_sentinel)
next
  case (Inr req)
  obtain resp eo st1 where ex: "exec_nil c st req = ((resp, eo), st1)"
    by (metis surj_pair)
  show ?thesis
  proof (cases eo)
    case None
    with Inr ex r show ?thesis by (simp add: Delete_def)
  next
    case (Some err)
    from sf ex Some have ns: "\<not> is_sentinel err"
      by (auto dest: exec_nil_error_not_sentinel)
    show ?thesis
    proof (cases "err = Error ''zone not found''")
      case True
      with Inr ex Some r show ?thesis by (simp add: Delete_def)
    next
      case False
      with Inr ex Some r have "eD = err"
        by (cases err) (simp_all add: Delete_def)
      with ns s show ?thesis by simp
    qed
  qed
qed

text \<open>
  C10. With a client that never hands out \<^verbatim>\<open>ErrZoneExists\<close> or \<^verbatim>\<open>ErrZoneMissing\<close>
  itself, whenever Get, Create, Update or Delete returns one of the two values, the
  operation's request was executed and failed with the structured error that the
  operation classifies, and the response returned with the value is the response that
  \<^verbatim>\<open>Do\<close> returned with that error; the zone Get returns is nil.
\<close>

theorem sentinel_returned_with_response_of_failed_call:
  "(sentinel_free c \<and> Get c zone st = Some (Return (zo, respG, Some eG), stG) \<and>
    is_sentinel eG \<longrightarrow>
      zo = None \<and> eG = ErrZoneMissing \<and>
      (\<exists>req z'. NewRequest c ''GET'' (''zones/'' @ zone) None = Inr req \<and>
         exec_zone c st req (zero_Zone c) =
           ((z', respG, Some (Error ''zone not found'')), stG))) \<and>
   (sentinel_free c \<and> Create c (Some z) st = (Return (zC, respC, Some eC), stC) \<and> is_sentinel eC \<longrightarrow>
      eC = ErrZoneExists \<and>
      (\<exists>req. NewRequest c ''PUT'' (''zones/'' @ Zone z) (Some z) = Inr req \<and>
         exec_zone c st req z = ((zC, respC, Some (Error ''zone already exists'')), stC))) \<and>
   (sentinel_free c \<and> Update c (Some z) st = (Return (zU, respU, Some eU), stU) \<and> is_sentinel eU \<longrightarrow>
      eU = ErrZoneMissing \<and>
      (\<exists>req. NewRequest c ''POST'' (''zones/'' @ Zone z) (Some z) = Inr req \<and>
         exec_zone c st req z = ((zU, respU, Some (Error ''zone not found'')), stU))) \<and>
   (sentinel_free c \<and> Delete c zone st = ((respD, Some eD), stD) \<and> is_sentinel eD \<longrightarrow>
      eD = ErrZoneMissing \<and>
      (\<exists>req. NewRequest c ''DELETE'' (''zones/'' @ zone) None = Inr req \<and>
         exec_nil c st req = ((respD, Some (Error ''zone not found'')), stD)))"
proof -
  note Get_sentinel_origin [of c eG zone st zo respG stG]
    Create_sentinel_origin [of c eC z st zC respC stC]
    Update_sentinel_origin [of c eU z st zU respU stU]
    Delete_sentinel_origin [of c eD zone st respD stD]
  then show ?thesis by blast
qed

theorem sentinel_returned_with_response_of_failed_call_witness:
  "sentinel_free (demo True) \<and>
   Get (demo True) ''missing.org'' (start 1) =
     Some (Return (None, Some (response 404 []), Some ErrZoneMissing),
           \<lparr>world = 0, sent = [''GET zones/missing.org'']\<rparr>) \<and>
   (\<exists>req z'. NewRequest (demo True) ''GET'' (''zones/'' @ ''missing.org'') None = Inr req \<and>
      exec_zone (demo True) (start 1) req (zero_Zone (demo True)) =
        ((z', Some (response 404 []), Some (Error ''zone not found'')),
         \<lparr>world = 0, sent = [''GET zones/missing.org'']\<rparr>)) \<and>
   Create (demo True) (Some (zone_named ''example.com'' [])) (start 1) =
     (Return (zone_named ''example.com'' [], Some (response 400 []), Some ErrZoneExists),
      \<lparr>world = 0, sent = [''PUT zones/example.com'']\<rparr>) \<and>
   (\<exists>req. NewRequest (demo True) ''PUT'' (''zones/'' @ Zone (zone_named ''example.com'' []))
        (Some (zone_named ''example.com'' [])) = Inr req \<and>
      exec_zone (demo True) (start 1) req (zone_named ''example.com'' []) =
        ((zone_named ''example.com'' [], Some (response 400 []),
          Some (Error ''zone already exists'')),
         \<lparr>world = 0, sent = [''PUT zones/example.com'']\<rparr>)) \<and>
   Update (demo True) (Some (zone_named ''missing.org'' [])) (start 1) =
     (Return (zone_named ''missing.org'' [], Some (response 404 []), Some ErrZoneMissing),
      \<lparr>world = 0, sent = [''POST zones/missing.org'']\<rparr>) \<and>
   (\<exists>req. NewRequest (demo True) ''POST'' (''zones/'' @ Zone (zone_named ''missing.org'' []))
        (Some (zone_named ''missing.org'' [])) = Inr req \<and>
      exec_zone (demo True) (start 1) req (zone_named ''missing.org'' []) =
        ((zone_named ''missing.org'' [], Some (response 404 []),
          Some (Error ''zone not found'')),
         \<lparr>world = 0, sent = [''POST zones/missing.org'']\<rparr>)) \<and>
   Delete (demo True) ''missing.org'' (start 1) =
     ((Some (response 404 []), Some ErrZoneMissing),
      \<lparr>world = 0, sent = [''DELETE zones/missing.org'']\<rparr>) \<and>
   (\<exists>req. NewRequest (demo True) ''DELETE'' (''zones/'' @ ''missing.org'') None = Inr req \<and>
      exec_nil (demo True) (start 1) req =
        ((Some (response 404 []), Some (Error ''zone not found'')),
         \<lparr>world = 0, sent = [''DELETE zones/missing.org'']\<rparr>))"
proof -
  have sf: "sentinel_free (demo True)"
    by (simp add: sentinel_free_def is_sentinel_def demo_def)
  have s: "is_sentinel ErrZoneMissing" "is_sentinel ErrZoneExists"
    by (simp_all add: is_sentinel_def)
  have g: "Get (demo True) ''missing.org'' (start 1) =
     Some (Return (None, Some (response 404 []), Some ErrZoneMissing),
           \<lparr>world = 0, sent = [''GET zones/missing.org'']\<rparr>)"
    by (simp add: Get_def demo_def exec_zone_def start_def)
  have c: "Create (demo True) (Some (zone_named ''example.com'' [])) (start 1) =
     (Return (zone_named ''example.com'' [], Some (response 400 []), Some ErrZoneExists),
      \<lparr>world = 0, sent = [''PUT zones/example.com'']\<rparr>)"
    by (simp add: Create_def demo_def exec_zone_def start_def zone_named_def)
  have u: "Update (demo True) (Some (zone_named ''missing.org'' [])) (start 1) =
     (Return (zone_named ''missing.org'' [], Some (response 404 []), Some ErrZoneMissing),
      \<lparr>world = 0, sent = [''POST zones/missing.org'']\<rparr>)"
    by (simp add: Update_def demo_def exec_zone_def start_def zone_named_def)
  have d: "Delete (demo True) ''missing.org'' (start 1) =
     ((Some (response 404 []), Some ErrZoneMissing),
      \<lparr>world = 0, sent = [''DELETE zones/missing.org'']\<rparr>)"
    by (simp add: Delete_def demo_def exec_nil_def start_def)
  note t = sentinel_returned_with_response_of_failed_call
    [where c = "demo True" and st = "start 1" and zone = "''missing.org''"
       and zo = None and respG = "Some (response 404 [])" and eG = ErrZoneMissing
       and stG = "\<lparr>world = 0, sent = [''GET zones/missing.org'']\<rparr>"
       and respD = "Some (response 404 [])" and eD = ErrZoneMissing
       and stD = "\<lparr>world = 0, sent = [''DELETE zones/missing.org'']\<rparr>"]
  from t [where z = "zone_named ''example.com'' []" and zC = "zone_named ''example.com'' []"
            and respC = "Some (response 400 [])" and eC = ErrZoneExists
            and stC = "\<lparr>world = 0, sent = [''PUT zones/example.com'']\<rparr>"]
    t [where z = "zone_named ''missing.org'' []" and zU = "zone_named ''missing.org'' []"
            and respU = "Some (response 404 [])" and eU = ErrZoneMissing
            and stU = "\<lparr>world = 0, sent = [''POST zones/missing.org'']\<rparr>"]
    sf s g c u d
  show ?thesis by blast
qed

end
